theory Spec2Isabelle
  imports Complex_Main "HOL-Library.Sublist" "HOL-Library.Log_Nat"
begin

section \<open>Python and pandas values\<close>

text \<open>
  The dashboard variants keep their data in pandas tables and pass it between callbacks
  as lists of dictionaries (\<^verbatim>\<open>df.to_dict("records")\<close>).  A table cell is a string,
  an integer or the missing value \<^verbatim>\<open>NaN\<close>; Steps and Calories are integers in the
  persisted format, so numeric cells are modelled as unbounded integers.  Python
  exceptions are values of type \<open>exn\<close>; a function that may raise returns \<open>exn + 'a\<close>.
  Python floats are modelled by exact rationals.
\<close>

datatype exn = KeyError | IndexError | ValueError | TypeError | EmptyDataError | ParserError

datatype cell = S string | N int | NaN

type_synonym pydict = "(string \<times> cell) list"

record frame =
  columns :: "string list"
  rows :: "cell list list"

definition and_then :: "exn + 'a \<Rightarrow> ('a \<Rightarrow> exn + 'b) \<Rightarrow> exn + 'b" where
  "and_then m k = (case m of Inl e \<Rightarrow> Inl e | Inr v \<Rightarrow> k v)"

definition lookup :: "pydict \<Rightarrow> string \<Rightarrow> cell" where
  "lookup d k = (case map_of d k of None \<Rightarrow> NaN | Some v \<Rightarrow> v)"

text \<open>\<^verbatim>\<open>row[key]\<close> on a row of a table: a missing key raises KeyError.\<close>

definition getitem :: "pydict \<Rightarrow> string \<Rightarrow> exn + cell" where
  "getitem d k = (case map_of d k of None \<Rightarrow> Inl KeyError | Some v \<Rightarrow> Inr v)"

text \<open>
  \<^verbatim>\<open>pd.DataFrame(records)\<close>: the columns are the keys of the dictionaries in order of
  first appearance, so the empty list gives a table without columns; a key missing
  from one dictionary is filled with NaN.
\<close>

definition keys_union :: "pydict list \<Rightarrow> string list" where
  "keys_union recs = fold (\<lambda>d acc. acc @ filter (\<lambda>k. k \<notin> set acc) (map fst d)) recs []"

definition DataFrame :: "pydict list \<Rightarrow> frame" where
  "DataFrame recs =
     \<lparr>columns = keys_union recs,
      rows = map (\<lambda>d. map (lookup d) (keys_union recs)) recs\<rparr>"

definition row_dict :: "frame \<Rightarrow> cell list \<Rightarrow> pydict" where
  "row_dict f r = zip (columns f) r"

definition to_dict_records :: "frame \<Rightarrow> pydict list" where
  "to_dict_records f = map (row_dict f) (rows f)"

text \<open>\<^verbatim>\<open>df[name]\<close>: a column, KeyError when the table has no such column.\<close>

definition getcol :: "frame \<Rightarrow> string \<Rightarrow> exn + cell list" where
  "getcol f c =
     (if c \<in> set (columns f) then Inr (map (\<lambda>r. lookup (row_dict f r) c) (rows f))
      else Inl KeyError)"

text \<open>\<^verbatim>\<open>df.iloc[i]\<close>: a negative position counts from the end; out of range raises.\<close>

definition iloc :: "frame \<Rightarrow> int \<Rightarrow> exn + pydict" where
  "iloc f i =
     (let n = int (length (rows f)); j = (if i < 0 then n + i else i)
      in if 0 \<le> j \<and> j < n then Inr (row_dict f (rows f ! nat j)) else Inl IndexError)"

subsection \<open>Arithmetic on cells\<close>

text \<open>Subtraction of two cells: NaN is absorbing, a string operand raises TypeError.\<close>

definition sub_cell :: "cell \<Rightarrow> cell \<Rightarrow> exn + cell" where
  "sub_cell x y =
     (case (x, y) of
        (N a, N b) \<Rightarrow> Inr (N (a - b))
      | (S a, _) \<Rightarrow> Inl TypeError
      | (_, S b) \<Rightarrow> Inl TypeError
      | _ \<Rightarrow> Inr NaN)"

text \<open>Comparison of a numeric cell with an integer: every comparison with NaN is false.\<close>

fun gt_cell :: "cell \<Rightarrow> int \<Rightarrow> bool" where
  "gt_cell (N a) k = (a > k)"
| "gt_cell c k = False"

fun lt_cell :: "cell \<Rightarrow> int \<Rightarrow> bool" where
  "lt_cell (N a) k = (a < k)"
| "lt_cell c k = False"

text \<open>\<^verbatim>\<open>int(cell)\<close>: NaN cannot be converted; text cells are reported as ValueError.\<close>

fun int_cell :: "cell \<Rightarrow> exn + int" where
  "int_cell (N a) = Inr a"
| "int_cell c = Inl ValueError"

text \<open>The numbers of a column with NaN skipped (pandas reductions use \<^verbatim>\<open>skipna\<close>).\<close>

fun numbers :: "cell list \<Rightarrow> exn + int list" where
  "numbers [] = Inr []"
| "numbers (N a # cs) = and_then (numbers cs) (\<lambda>ns. Inr (a # ns))"
| "numbers (NaN # cs) = numbers cs"
| "numbers (S s # cs) = Inl TypeError"

text \<open>\<^verbatim>\<open>Series.mean()\<close>: the mean of no numbers is NaN, here \<open>None\<close>.\<close>

definition mean :: "cell list \<Rightarrow> exn + rat option" where
  "mean cs = and_then (numbers cs)
     (\<lambda>ns. Inr (if ns = [] then None
                 else Some (rat_of_int (sum_list ns) / rat_of_nat (length ns))))"

text \<open>\<^verbatim>\<open>int(x)\<close> on a float truncates toward zero and raises ValueError on NaN.\<close>

definition trunc :: "rat \<Rightarrow> int" where
  "trunc q = (if 0 \<le> q then \<lfloor>q\<rfloor> else \<lceil>q\<rceil>)"

definition py_int :: "rat option \<Rightarrow> exn + int" where
  "py_int x = (case x of None \<Rightarrow> Inl ValueError | Some q \<Rightarrow> Inr (trunc q))"

subsection \<open>Charts\<close>

text \<open>
  \<^verbatim>\<open>px.line(data, x=..., y=...)\<close> and \<^verbatim>\<open>px.bar\<close> need both columns to exist and raise
  ValueError otherwise; the chart description keeps the two series.
\<close>

datatype chart_kind = Line | Bar

record chart =
  kind :: chart_kind
  x_values :: "cell list"
  y_values :: "cell list"

definition px_chart :: "chart_kind \<Rightarrow> frame \<Rightarrow> string \<Rightarrow> string \<Rightarrow> exn + chart" where
  "px_chart k f x y =
     (case (getcol f x, getcol f y) of
        (Inr xs, Inr ys) \<Rightarrow> Inr \<lparr>kind = k, x_values = xs, y_values = ys\<rparr>
      | _ \<Rightarrow> Inl ValueError)"

definition make_charts :: "frame \<Rightarrow> exn + chart \<times> chart" where
  "make_charts data =
     and_then (px_chart Line data ''Day'' ''Steps'') (\<lambda>fig_steps.
     and_then (px_chart Bar data ''Day'' ''Calories'') (\<lambda>fig_cal.
     Inr (fig_steps, fig_cal)))"

subsection \<open>Weekday categories\<close>

text \<open>
  \<^verbatim>\<open>pd.Categorical(values, categories=[...], ordered=True)\<close> keeps a value that is one
  of the categories and replaces every other value by NaN; the code of a value is its
  position in the category list, and \<open>-1\<close> for NaN.
\<close>

definition weekdays :: "string list" where
  "weekdays = [''Monday'', ''Tuesday'', ''Wednesday'', ''Thursday'', ''Friday'',
               ''Saturday'', ''Sunday'']"

fun index_of :: "'a \<Rightarrow> 'a list \<Rightarrow> nat option" where
  "index_of x [] = None"
| "index_of x (y # ys) = (if x = y then Some 0 else map_option Suc (index_of x ys))"

definition categorical :: "string list \<Rightarrow> cell \<Rightarrow> cell" where
  "categorical cats c =
     (case c of S s \<Rightarrow> if s \<in> set cats then S s else NaN | _ \<Rightarrow> NaN)"

definition cat_code :: "string list \<Rightarrow> cell \<Rightarrow> int" where
  "cat_code cats c =
     (case c of
        S s \<Rightarrow> (case index_of s cats of None \<Rightarrow> - 1 | Some i \<Rightarrow> int i)
      | _ \<Rightarrow> - 1)"

text \<open>\<^verbatim>\<open>df[c] = g(df[c])\<close>: the column is replaced in place; KeyError without it.\<close>

definition map_col :: "frame \<Rightarrow> string \<Rightarrow> (cell \<Rightarrow> cell) \<Rightarrow> exn + frame" where
  "map_col f c g =
     (if c \<in> set (columns f)
      then Inr (f\<lparr>rows := map (\<lambda>r. map (\<lambda>k. if k = c then g (lookup (row_dict f r) k)
                                               else lookup (row_dict f r) k) (columns f))
                              (rows f)\<rparr>)
      else Inl KeyError)"

definition set_day_categorical :: "frame \<Rightarrow> exn + frame" where
  "set_day_categorical f = map_col f ''Day'' (categorical weekdays)"

subsection \<open>The persisted CSV format\<close>

text \<open>
  \<^verbatim>\<open>df.to_csv(path, index=False)\<close> writes the header line and one line per row, fields
  separated by commas, each line ended by a newline; a number is written in decimal,
  NaN as the empty field, and a text field is quoted only when it contains a comma, a
  double quote or a line break.  \<^verbatim>\<open>pd.read_csv\<close> is modelled on the unquoted dialect:
  blank lines are skipped, the first line names the columns, a short row is padded
  with NaN and a row longer than the header is a ParserError; a column whose non-empty
  fields are all integer literals is numeric, any other column is text, and an empty
  field is NaN.
\<close>

definition newline :: char where "newline = CHR 0x0A"
definition comma :: char where "comma = CHR '',''"
definition dquote :: char where "dquote = CHR 0x22"
definition creturn :: char where "creturn = CHR 0x0D"

definition digit_char :: "nat \<Rightarrow> char" where
  "digit_char d = char_of (48 + d)"

function str_nat :: "nat \<Rightarrow> string" where
  "str_nat n = (if n < 10 then [digit_char n] else str_nat (n div 10) @ [digit_char (n mod 10)])"
  by pat_completeness auto
termination
  by (relation "measure id") auto

declare str_nat.simps [simp del]

definition str_int :: "int \<Rightarrow> string" where
  "str_int i = (if i < 0 then CHR ''-'' # str_nat (nat (- i)) else str_nat (nat i))"

definition is_digit :: "char \<Rightarrow> bool" where
  "is_digit c \<longleftrightarrow> 48 \<le> (of_char c :: nat) \<and> (of_char c :: nat) \<le> 57"

definition digit_val :: "char \<Rightarrow> nat" where
  "digit_val c = of_char c - 48"

definition parse_nat :: "string \<Rightarrow> nat" where
  "parse_nat s = foldl (\<lambda>a c. 10 * a + digit_val c) 0 s"

definition is_int_literal :: "string \<Rightarrow> bool" where
  "is_int_literal s =
     (case s of
        [] \<Rightarrow> False
      | c # cs \<Rightarrow> if c = CHR ''-'' then cs \<noteq> [] \<and> list_all is_digit cs
                  else list_all is_digit (c # cs))"

definition parse_int :: "string \<Rightarrow> int" where
  "parse_int s =
     (case s of
        [] \<Rightarrow> 0
      | c # cs \<Rightarrow> if c = CHR ''-'' then - int (parse_nat cs) else int (parse_nat (c # cs)))"

definition needs_quote :: "string \<Rightarrow> bool" where
  "needs_quote s = list_ex (\<lambda>c. c = comma \<or> c = dquote \<or> c = newline \<or> c = creturn) s"

definition quote :: "string \<Rightarrow> string" where
  "quote s = dquote # concat (map (\<lambda>c. if c = dquote then [dquote, dquote] else [c]) s) @ [dquote]"

definition csv_text :: "string \<Rightarrow> string" where
  "csv_text s = (if needs_quote s then quote s else s)"

fun csv_field :: "cell \<Rightarrow> string" where
  "csv_field (S s) = csv_text s"
| "csv_field (N a) = str_int a"
| "csv_field NaN = []"

fun join :: "char \<Rightarrow> string list \<Rightarrow> string" where
  "join c [] = []"
| "join c [x] = x"
| "join c (x # y # ys) = x @ c # join c (y # ys)"

definition csv_line :: "string list \<Rightarrow> string" where
  "csv_line fs = join comma fs @ [newline]"

definition to_csv :: "frame \<Rightarrow> string" where
  "to_csv f =
     concat (map csv_line (map csv_text (columns f) # map (map csv_field) (rows f)))"

fun split_on :: "char \<Rightarrow> string \<Rightarrow> string list" where
  "split_on c [] = [[]]"
| "split_on c (x # xs) =
     (if x = c then [] # split_on c xs
      else (case split_on c xs of [] \<Rightarrow> [[x]] | w # ws \<Rightarrow> (x # w) # ws))"

definition field_at :: "string list \<Rightarrow> nat \<Rightarrow> string" where
  "field_at r j = (if j < length r then r ! j else [])"

definition numeric_col :: "string list list \<Rightarrow> nat \<Rightarrow> bool" where
  "numeric_col raw j = list_all (\<lambda>r. field_at r j = [] \<or> is_int_literal (field_at r j)) raw"

definition conv :: "bool \<Rightarrow> string \<Rightarrow> cell" where
  "conv numeric s = (if s = [] then NaN else if numeric then N (parse_int s) else S s)"

definition read_csv :: "string \<Rightarrow> exn + frame" where
  "read_csv text =
     (case filter (\<lambda>l. l \<noteq> []) (split_on newline text) of
        [] \<Rightarrow> Inl EmptyDataError
      | h # ls \<Rightarrow>
          (let cols = split_on comma h; raw = map (split_on comma) ls
           in if list_ex (\<lambda>r. length cols < length r) raw then Inl ParserError
              else Inr \<lparr>columns = cols,
                        rows = map (\<lambda>r. map (\<lambda>j. conv (numeric_col raw j) (field_at r j))
                                             [0..<length cols]) raw\<rparr>))"

section \<open>Pages\<close>

text \<open>
  A rendered page is described by the values it shows: the dashboard by the two
  averages and the two charts, the insights page by the last day, the two differences,
  the advice with its colour and the trend chart, and a page that only carries a
  notice by its text.
\<close>

record insights_view =
  iv_day :: cell
  iv_steps :: cell
  iv_diff_steps :: cell
  iv_calories :: cell
  iv_diff_cal :: cell
  iv_msg :: string
  iv_color :: string
  iv_chart :: "chart option"

record summary =
  total_steps :: int
  avg_steps :: "rat option"
  avg_steps_shown :: "int option"
  total_calories :: int
  best_day :: cell
  best_day_steps :: cell

datatype page =
  DashboardPage int int chart chart
| SummaryPage summary chart chart
| InsightsPage insights_view
| NoticePage string

section \<open>Variant 1pc4.py\<close>

text \<open>
  The table \<open>df\<close> of the module is read from \<^verbatim>\<open>data.csv\<close> when the module is
  imported, and its Day column is made categorical.
\<close>

definition load_data :: "string \<Rightarrow> exn + frame" where
  "load_data data_csv = and_then (read_csv data_csv) set_day_categorical"

definition dashboard_page_1pc4 :: "frame \<Rightarrow> exn + page" where
  "dashboard_page_1pc4 data =
     and_then (make_charts data) (\<lambda>figs.
     and_then (getcol data ''Steps'') (\<lambda>steps.
     and_then (mean steps) (\<lambda>m.
     and_then (py_int m) (\<lambda>avg_steps.
     and_then (getcol data ''Calories'') (\<lambda>cals.
     and_then (mean cals) (\<lambda>mc.
     and_then (py_int mc) (\<lambda>avg_cal.
     Inr (DashboardPage avg_steps avg_cal (fst figs) (snd figs)))))))))"

text \<open>
  The insights pages of 1pc4.py, SNbo.py and SfUI.py run the same statements and differ
  only in the three advice texts, so the common body takes the advice selector as an
  argument.  All texts are given without their emoji and quotation marks and with
  ASCII punctuation.
\<close>

definition insights_body :: "(cell \<Rightarrow> string \<times> string) \<Rightarrow> frame \<Rightarrow> exn + page" where
  "insights_body advice data =
     and_then (iloc data (- 1)) (\<lambda>yesterday.
     and_then (iloc data (- 2)) (\<lambda>previous.
     and_then (getitem yesterday ''Steps'') (\<lambda>ys.
     and_then (getitem previous ''Steps'') (\<lambda>ps.
     and_then (sub_cell ys ps) (\<lambda>diff_steps.
     and_then (getitem yesterday ''Calories'') (\<lambda>yc.
     and_then (getitem previous ''Calories'') (\<lambda>pc.
     and_then (sub_cell yc pc) (\<lambda>diff_cal.
     and_then (make_charts data) (\<lambda>figs.
     and_then (getitem yesterday ''Day'') (\<lambda>day.
     and_then (int_cell ys) (\<lambda>steps.
     and_then (int_cell yc) (\<lambda>calories.
     Inr (InsightsPage
       \<lparr>iv_day = day, iv_steps = N steps, iv_diff_steps = diff_steps,
        iv_calories = N calories, iv_diff_cal = diff_cal,
        iv_msg = fst (advice diff_steps),
        iv_color = snd (advice diff_steps),
        iv_chart = Some (fst figs)\<rparr>)))))))))))))"

definition success_1pc4 :: "string \<times> string" where
  "success_1pc4 = (''You were more active than the previous day. Keep it up!'', ''success'')"

definition danger_1pc4 :: "string \<times> string" where
  "danger_1pc4 = (''Yesterday activity was lower. Try to move a bit more today!'', ''danger'')"

definition neutral_1pc4 :: "string \<times> string" where
  "neutral_1pc4 = (''Consistent performance - steady progress!'', ''warning'')"

definition delta_advice_1pc4 :: "cell \<Rightarrow> string \<times> string" where
  "delta_advice_1pc4 diff_steps =
     (if gt_cell diff_steps 500 then success_1pc4
      else if lt_cell diff_steps (- 500) then danger_1pc4
      else neutral_1pc4)"

definition insights_page_1pc4 :: "frame \<Rightarrow> exn + page" where
  "insights_page_1pc4 data = insights_body delta_advice_1pc4 data"

definition routing_1pc4 :: "string \<Rightarrow> pydict list \<Rightarrow> exn + page" where
  "routing_1pc4 pathname memory_data =
     (let data = DataFrame memory_data
      in if pathname = ''/insights'' then insights_page_1pc4 data
         else dashboard_page_1pc4 data)"

text \<open>
  \<^verbatim>\<open>refresh_from_csv(n_clicks)\<close> reads the file again; \<open>df\<close> is the table loaded at start
  and \<open>data_csv\<close> the present content of \<^verbatim>\<open>data.csv\<close>.  The result is the new content
  of the store, the status line and the charts.
\<close>

datatype status = NoStatus | Reloaded | Uploaded string nat | LoadFailed exn

definition refresh_from_csv_1pc4 ::
  "nat \<Rightarrow> frame \<Rightarrow> string \<Rightarrow> exn + pydict list \<times> status \<times> (chart \<times> chart) option" where
  "refresh_from_csv_1pc4 n_clicks df data_csv =
     (if n_clicks = 0
      then and_then (make_charts df) (\<lambda>figs. Inr (to_dict_records df, NoStatus, Some figs))
      else (case and_then (read_csv data_csv) (\<lambda>new_df.
                 and_then (set_day_categorical new_df) (\<lambda>new_df.
                 and_then (make_charts new_df) (\<lambda>figs.
                 Inr (to_dict_records new_df, Reloaded, Some figs)))) of
              Inr r \<Rightarrow> Inr r
            | Inl e \<Rightarrow> Inr (to_dict_records df, LoadFailed e, None)))"

section \<open>Variant SNbo.py\<close>

definition success_SNbo :: "string \<times> string" where
  "success_SNbo = (''Yesterday you were more active than before - amazing effort!'', ''success'')"

definition danger_SNbo :: "string \<times> string" where
  "danger_SNbo = (''You slowed down yesterday - maybe take a walk today!'', ''danger'')"

definition neutral_SNbo :: "string \<times> string" where
  "neutral_SNbo = (''Consistent performance - steady progress!'', ''warning'')"

definition delta_advice_SNbo :: "cell \<Rightarrow> string \<times> string" where
  "delta_advice_SNbo diff_steps =
     (if gt_cell diff_steps 500 then success_SNbo
      else if lt_cell diff_steps (- 500) then danger_SNbo
      else neutral_SNbo)"

definition insights_page_SNbo :: "frame \<Rightarrow> exn + page" where
  "insights_page_SNbo data = insights_body delta_advice_SNbo data"

section \<open>Variant SfUI.py\<close>

definition upload_prompt_SfUI :: string where
  "upload_prompt_SfUI = ''Please upload a CSV file (Day, Steps, Calories) to display charts.''"

definition no_data_SfUI :: string where
  "no_data_SfUI = ''No data available. Please upload a CSV first on the Dashboard.''"

definition dashboard_page_SfUI :: "pydict list option \<Rightarrow> exn + page" where
  "dashboard_page_SfUI data =
     (case data of
        None \<Rightarrow> Inr (NoticePage upload_prompt_SfUI)
      | Some recs \<Rightarrow>
          if length recs = 0 then Inr (NoticePage upload_prompt_SfUI)
          else (let df = DataFrame recs in
            and_then (make_charts df) (\<lambda>figs.
            and_then (getcol df ''Steps'') (\<lambda>steps.
            and_then (mean steps) (\<lambda>m.
            and_then (py_int m) (\<lambda>avg_steps.
            and_then (getcol df ''Calories'') (\<lambda>cals.
            and_then (mean cals) (\<lambda>mc.
            and_then (py_int mc) (\<lambda>avg_cal.
            Inr (DashboardPage avg_steps avg_cal (fst figs) (snd figs)))))))))))"

definition success_SfUI :: "string \<times> string" where
  "success_SfUI = (''Great job! You were more active yesterday!'', ''success'')"

definition danger_SfUI :: "string \<times> string" where
  "danger_SfUI = (''You slowed down - take a short walk today!'', ''danger'')"

definition neutral_SfUI :: "string \<times> string" where
  "neutral_SfUI = (''Consistent performance - keep the balance.'', ''warning'')"

definition delta_advice_SfUI :: "cell \<Rightarrow> string \<times> string" where
  "delta_advice_SfUI diff_steps =
     (if gt_cell diff_steps 500 then success_SfUI
      else if lt_cell diff_steps (- 500) then danger_SfUI
      else neutral_SfUI)"

definition insights_page_SfUI :: "pydict list option \<Rightarrow> exn + page" where
  "insights_page_SfUI data =
     (case data of
        None \<Rightarrow> Inr (NoticePage no_data_SfUI)
      | Some recs \<Rightarrow>
          if length recs = 0 then Inr (NoticePage no_data_SfUI)
          else insights_body delta_advice_SfUI (DataFrame recs))"

definition routing_SfUI :: "string \<Rightarrow> pydict list option \<Rightarrow> exn + page" where
  "routing_SfUI pathname memory_data =
     (if pathname = ''/insights'' then insights_page_SfUI memory_data
      else dashboard_page_SfUI memory_data)"

text \<open>
  \<^verbatim>\<open>upload_csv(contents, filename)\<close>: \<open>contents\<close> is the decoded text of the uploaded
  file when there is one.  Every exception inside the \<^verbatim>\<open>try\<close> block empties the store.
\<close>

definition upload_csv_SfUI :: "string option \<Rightarrow> string \<Rightarrow> pydict list \<times> status" where
  "upload_csv_SfUI contents filename =
     (case contents of
        None \<Rightarrow> ([], NoStatus)
      | Some text \<Rightarrow>
          (case and_then (read_csv text) set_day_categorical of
             Inr new_df \<Rightarrow> (to_dict_records new_df, Uploaded filename (length (rows new_df)))
           | Inl e \<Rightarrow> ([], LoadFailed e)))"

section \<open>Variant 9UCN.py\<close>

text \<open>
  The store of this variant holds the uploaded table itself (as JSON), or nothing.
  \<open>contents\<close> again stands for the decoded text of the upload.
\<close>

definition required_columns :: "string list" where
  "required_columns = [''Day'', ''Steps'', ''Calories'']"

definition schema_error :: string where
  "schema_error = ''Error: CSV must contain Day, Steps, and Calories columns.''"

definition not_csv_error :: string where
  "not_csv_error = ''Error: Please upload a CSV file.''"

definition processing_error :: string where
  "processing_error = ''There was an error processing this file.''"

definition parse_contents :: "string \<Rightarrow> string \<Rightarrow> frame option \<times> string option" where
  "parse_contents contents filename =
     (if sublist ''csv'' filename
      then (case read_csv contents of
              Inl e \<Rightarrow> (None, Some processing_error)
            | Inr df \<Rightarrow>
                if \<not> set required_columns \<subseteq> set (columns df) then (None, Some schema_error)
                else (Some df, None))
      else (None, Some not_csv_error))"

datatype dashboard_content = Alert string | ChartPlaceholders | UploadCard

definition update_output :: "string option \<Rightarrow> string \<Rightarrow> frame option \<times> dashboard_content" where
  "update_output contents filename =
     (case contents of
        None \<Rightarrow> (None, UploadCard)
      | Some text \<Rightarrow>
          (case parse_contents text filename of
             (df, Some error_message) \<Rightarrow>
               if error_message \<noteq> [] then (None, Alert error_message)
               else (case df of Some d \<Rightarrow> (Some d, ChartPlaceholders)
                     | None \<Rightarrow> (None, UploadCard))
           | (Some d, None) \<Rightarrow> (Some d, ChartPlaceholders)
           | (None, None) \<Rightarrow> (None, UploadCard)))"

text \<open>
  The callback writes its two results to the store and to the dashboard area; the
  previous content of either is not an input of the callback.
\<close>

record app_state =
  stored_data :: "frame option"
  dashboard :: dashboard_content

definition on_upload_9UCN :: "app_state \<Rightarrow> string option \<Rightarrow> string \<Rightarrow> app_state" where
  "on_upload_9UCN st contents filename =
     st\<lparr>stored_data := fst (update_output contents filename),
        dashboard := snd (update_output contents filename)\<rparr>"

definition update_steps_chart :: "frame option \<Rightarrow> exn + chart option" where
  "update_steps_chart jsonified_cleaned_data =
     (case jsonified_cleaned_data of
        None \<Rightarrow> Inr None
      | Some df \<Rightarrow> and_then (px_chart Line df ''Day'' ''Steps'') (\<lambda>fig. Inr (Some fig)))"

definition update_calories_chart :: "frame option \<Rightarrow> exn + chart option" where
  "update_calories_chart jsonified_cleaned_data =
     (case jsonified_cleaned_data of
        None \<Rightarrow> Inr None
      | Some df \<Rightarrow> and_then (px_chart Bar df ''Day'' ''Calories'') (\<lambda>fig. Inr (Some fig)))"

definition please_upload_9UCN :: string where
  "please_upload_9UCN = ''Please upload a CSV file on the Dashboard page to see your insights.''"

definition need_two_days :: string where
  "need_two_days = ''You need at least two days of data to see insights.''"

definition advice_9UCN :: "cell \<Rightarrow> string \<times> string" where
  "advice_9UCN steps_diff =
     (if gt_cell steps_diff 0 then (''You were more active yesterday!'', ''success'')
      else if lt_cell steps_diff 0
      then (''You slowed down yesterday - try moving more today!'', ''warning'')
      else (''Consistent performance - great balance!'', ''info''))"

definition update_insights :: "frame option \<Rightarrow> exn + page" where
  "update_insights jsonified_cleaned_data =
     (case jsonified_cleaned_data of
        None \<Rightarrow> Inr (NoticePage please_upload_9UCN)
      | Some df \<Rightarrow>
          if length (rows df) < 2 then Inr (NoticePage need_two_days)
          else
            and_then (iloc df (- 1)) (\<lambda>last_day.
            and_then (iloc df (- 2)) (\<lambda>previous_day.
            and_then (getitem last_day ''Steps'') (\<lambda>ls.
            and_then (getitem previous_day ''Steps'') (\<lambda>ps.
            and_then (sub_cell ls ps) (\<lambda>steps_diff.
            and_then (getitem last_day ''Calories'') (\<lambda>lc.
            and_then (getitem previous_day ''Calories'') (\<lambda>pc.
            and_then (sub_cell lc pc) (\<lambda>calories_diff.
            and_then (getitem last_day ''Day'') (\<lambda>day.
            Inr (InsightsPage
              \<lparr>iv_day = day, iv_steps = ls, iv_diff_steps = steps_diff,
               iv_calories = lc, iv_diff_cal = calories_diff,
               iv_msg = fst (advice_9UCN steps_diff),
               iv_color = snd (advice_9UCN steps_diff),
               iv_chart = None\<rparr>)))))))))))"

section \<open>app.py\<close>

text \<open>
  \<^verbatim>\<open>parse_and_store_data\<close> returns the new content of the store and prints its error
  messages to the console; the second component lists what was printed.
\<close>

definition parse_and_store_data :: "string option \<Rightarrow> string \<Rightarrow> frame option \<times> string list" where
  "parse_and_store_data contents filename =
     (case contents of
        None \<Rightarrow> (None, [])
      | Some text \<Rightarrow>
          if sublist ''csv'' filename
          then (case read_csv text of
                  Inl e \<Rightarrow> (None, [''File processing error''])
                | Inr df \<Rightarrow>
                    if \<not> set required_columns \<subseteq> set (columns df)
                    then (None, [schema_error])
                    else (Some df, []))
          else (None, [not_csv_error]))"

definition sum_col :: "cell list \<Rightarrow> exn + int" where
  "sum_col cs = and_then (numbers cs) (\<lambda>ns. Inr (sum_list ns))"

text \<open>\<^verbatim>\<open>Series.idxmax()\<close>: the position of the first largest number; none raises.\<close>

definition idxmax :: "cell list \<Rightarrow> exn + nat" where
  "idxmax cs =
     and_then (numbers cs) (\<lambda>ns.
       case ns of
         [] \<Rightarrow> Inl ValueError
       | a # as \<Rightarrow> (case index_of (N (fold max as a)) cs of
                      None \<Rightarrow> Inl ValueError
                    | Some i \<Rightarrow> Inr i))"

text \<open>The format \<^verbatim>\<open>{:,.0f}\<close> rounds to the nearest integer, a tie to the even one.\<close>

definition round_half_even :: "rat \<Rightarrow> int" where
  "round_half_even q =
     (let f = \<lfloor>q\<rfloor>; d = q - rat_of_int f
      in if d < 1 / 2 then f else if 1 / 2 < d then f + 1
         else if even f then f else f + 1)"

definition please_upload_app :: string where
  "please_upload_app = ''Please upload a CSV file to see your activity dashboard.''"

definition update_output_content :: "frame option \<Rightarrow> exn + page" where
  "update_output_content jsonified_cleaned_data =
     (case jsonified_cleaned_data of
        None \<Rightarrow> Inr (NoticePage please_upload_app)
      | Some df \<Rightarrow>
          and_then (getcol df ''Steps'') (\<lambda>steps.
          and_then (sum_col steps) (\<lambda>total.
          and_then (mean steps) (\<lambda>avg.
          and_then (getcol df ''Calories'') (\<lambda>cals.
          and_then (sum_col cals) (\<lambda>total_cal.
          and_then (idxmax steps) (\<lambda>i.
          and_then (iloc df (int i)) (\<lambda>best_day_data.
          and_then (getitem best_day_data ''Day'') (\<lambda>bd.
          and_then (getitem best_day_data ''Steps'') (\<lambda>bs.
          and_then (px_chart Line df ''Day'' ''Steps'') (\<lambda>steps_fig.
          and_then (px_chart Bar df ''Day'' ''Calories'') (\<lambda>calories_fig.
          Inr (SummaryPage
                 \<lparr>total_steps = total, avg_steps = avg,
                  avg_steps_shown = map_option round_half_even avg,
                  total_calories = total_cal, best_day = bd, best_day_steps = bs\<rparr>
                 steps_fig calories_fig)))))))))))))"

text \<open>
  The store of app.py is likewise the output of the upload callback alone, and the
  page is drawn from the store.
\<close>

definition on_upload_app :: "frame option \<Rightarrow> string option \<Rightarrow> string \<Rightarrow> frame option" where
  "on_upload_app stored contents filename = fst (parse_and_store_data contents filename)"

section \<open>Advice by day (Dic7.py, 9VqS.py, 4EJM.py)\<close>

text \<open>
  These variants keep the table \<open>df\<close> loaded at import and the truncated averages
  \<^verbatim>\<open>avg_steps = int(df["Steps"].mean())\<close> in global variables; the functions below take
  \<open>df\<close> as an argument and compute \<open>avg_steps\<close> from it first.
\<close>

definition avg_steps_global :: "frame \<Rightarrow> exn + int" where
  "avg_steps_global df =
     and_then (getcol df ''Steps'') (\<lambda>steps. and_then (mean steps) py_int)"

definition avg_cal_global :: "frame \<Rightarrow> exn + int" where
  "avg_cal_global df =
     and_then (getcol df ''Calories'') (\<lambda>cals. and_then (mean cals) py_int)"

text \<open>\<^verbatim>\<open>df[df[c] == v]\<close>: the rows whose cell in column \<open>c\<close> is the text \<open>v\<close>.\<close>

definition select_eq :: "frame \<Rightarrow> string \<Rightarrow> string option \<Rightarrow> exn + frame" where
  "select_eq f c v =
     (if c \<in> set (columns f)
      then Inr (f\<lparr>rows := filter (\<lambda>r. case v of None \<Rightarrow> False
                                         | Some t \<Rightarrow> lookup (row_dict f r) c = S t) (rows f)\<rparr>)
      else Inl KeyError)"

definition first_value :: "cell list \<Rightarrow> exn + cell" where
  "first_value cs = (case cs of [] \<Rightarrow> Inl IndexError | c # _ \<Rightarrow> Inr c)"

record advice_card =
  ac_day :: string
  ac_steps :: int
  ac_msg :: string
  ac_color :: string

definition less_Dic7 :: "string \<times> string" where
  "less_Dic7 = (''You walked less than your weekly average - a short evening walk would help!'',
               ''danger'')"

definition more_Dic7 :: "string \<times> string" where
  "more_Dic7 = (''Amazing! You beat your weekly average!'', ''warning'')"

definition steady_Dic7 :: "string \<times> string" where
  "steady_Dic7 = (''Steady and consistent! Keep up the balance.'', ''success'')"

definition generate_advice :: "frame \<Rightarrow> string option \<Rightarrow> exn + advice_card option" where
  "generate_advice df day =
     and_then (avg_steps_global df) (\<lambda>avg_steps.
       case day of
         None \<Rightarrow> Inr None
       | Some d \<Rightarrow>
           if d = [] then Inr None
           else
             and_then (select_eq df ''Day'' day) (\<lambda>sel.
             and_then (iloc sel 0) (\<lambda>row.
             and_then (getitem row ''Steps'') (\<lambda>c.
             and_then (int_cell c) (\<lambda>steps.
               let diff = steps - avg_steps;
                   a = (if diff < - 500 then less_Dic7
                        else if diff > 500 then more_Dic7 else steady_Dic7)
               in Inr (Some \<lparr>ac_day = d, ac_steps = steps,
                             ac_msg = fst a, ac_color = snd a\<rparr>))))))"

definition below_9VqS :: string where
  "below_9VqS = ''You walked less than your weekly average. Try a short evening walk or take the stairs more often.''"

definition above_9VqS :: string where
  "above_9VqS = ''Excellent! You are above your average - keep it up.''"

definition around_9VqS :: string where
  "around_9VqS = ''You are right around your weekly average. Maintain consistency and stay active.''"

definition update_advice_9VqS :: "frame \<Rightarrow> string option \<Rightarrow> exn + advice_card" where
  "update_advice_9VqS df selected_day =
     and_then (avg_steps_global df) (\<lambda>avg_steps.
     and_then (select_eq df ''Day'' selected_day) (\<lambda>data.
     and_then (getcol data ''Steps'') (\<lambda>sc.
     and_then (first_value sc) (\<lambda>c.
     and_then (int_cell c) (\<lambda>steps.
     and_then (getcol data ''Calories'') (\<lambda>cc.
     and_then (first_value cc) (\<lambda>c2.
     and_then (int_cell c2) (\<lambda>calories.
       let advice =
             (if rat_of_int steps < rat_of_int avg_steps * (8 / 10) then below_9VqS
              else if rat_of_int steps > rat_of_int avg_steps * (11 / 10) then above_9VqS
              else around_9VqS)
       in Inr \<lparr>ac_day = (case selected_day of None \<Rightarrow> ''None'' | Some d \<Rightarrow> d),
               ac_steps = steps, ac_msg = advice, ac_color = []\<rparr>))))))))"

definition below_4EJM :: string where
  "below_4EJM = ''You walked less than your average - get moving!''"

definition above_4EJM :: string where
  "above_4EJM = ''Excellent! You are above your weekly average!''"

definition around_4EJM :: string where
  "around_4EJM = ''You are right around your average. Keep it steady!''"

definition update_advice_4EJM :: "frame \<Rightarrow> string option \<Rightarrow> exn + advice_card option" where
  "update_advice_4EJM df selected_day =
     and_then (avg_steps_global df) (\<lambda>avg_steps.
       case selected_day of
         None \<Rightarrow> Inr None
       | Some d \<Rightarrow>
           if d = [] then Inr None
           else
             and_then (select_eq df ''Day'' selected_day) (\<lambda>row.
             and_then (getcol row ''Steps'') (\<lambda>sc.
             and_then (first_value sc) (\<lambda>c.
             and_then (int_cell c) (\<lambda>steps.
             and_then (getcol row ''Calories'') (\<lambda>cc.
             and_then (first_value cc) (\<lambda>c2.
             and_then (int_cell c2) (\<lambda>calories.
               let avg = avg_steps;
                   msg = (if rat_of_int steps < rat_of_int avg * (8 / 10) then below_4EJM
                          else if rat_of_int steps > rat_of_int avg * (12 / 10) then above_4EJM
                          else around_4EJM)
               in Inr (Some \<lparr>ac_day = d, ac_steps = steps,
                             ac_msg = msg, ac_color = []\<rparr>)))))))))"

section \<open>Variant OtSo.py: adding an entry and saving\<close>

text \<open>
  \<^verbatim>\<open>pd.concat([a, b], ignore_index=True)\<close> puts the rows of \<open>b\<close> under those of \<open>a\<close>;
  the columns are those of \<open>a\<close> followed by the new ones of \<open>b\<close>.
\<close>

definition pd_concat :: "frame \<Rightarrow> frame \<Rightarrow> frame" where
  "pd_concat a b =
     (let cols = columns a @ filter (\<lambda>c. c \<notin> set (columns a)) (columns b)
      in \<lparr>columns = cols,
          rows = map (\<lambda>r. map (lookup (row_dict a r)) cols) (rows a)
               @ map (\<lambda>r. map (lookup (row_dict b r)) cols) (rows b)\<rparr>)"

datatype add_status = NoMessage | FillBothFields | Added string int int

text \<open>
  \<^verbatim>\<open>add_entry(n_clicks, day, steps, current)\<close>: a field the user left untouched is
  \<open>None\<close>; \<^verbatim>\<open>not day\<close> also holds for the empty text and \<^verbatim>\<open>not steps\<close> for zero.
\<close>

definition fields_missing :: "string option \<Rightarrow> int option \<Rightarrow> bool" where
  "fields_missing day steps \<longleftrightarrow>
     (case day of None \<Rightarrow> True | Some d \<Rightarrow> d = []) \<or>
     (case steps of None \<Rightarrow> True | Some n \<Rightarrow> n = 0)"

definition auto_calories :: "int \<Rightarrow> int" where
  "auto_calories steps = trunc (rat_of_int steps * (5 / 100))"

definition add_entry ::
  "nat \<Rightarrow> string option \<Rightarrow> int option \<Rightarrow> pydict list \<Rightarrow> exn + pydict list \<times> add_status \<times> chart" where
  "add_entry n_clicks day steps current =
     (if n_clicks = 0
      then and_then (make_charts (DataFrame current)) (\<lambda>figs. Inr (current, NoMessage, fst figs))
      else if fields_missing day steps
      then and_then (make_charts (DataFrame current)) (\<lambda>figs.
             Inr (current, FillBothFields, fst figs))
      else
        (case (day, steps) of
           (Some d, Some n) \<Rightarrow>
             (let df_local = DataFrame current;
                  calories = auto_calories n;
                  new_row = [(''Day'', S d), (''Steps'', N n), (''Calories'', N calories)];
                  df_local = pd_concat df_local (DataFrame [new_row])
              in and_then (make_charts df_local) (\<lambda>figs.
                   Inr (to_dict_records df_local, Added d n calories, fst figs)))
         | _ \<Rightarrow> Inl TypeError))"

text \<open>
  \<^verbatim>\<open>save_to_csv(n_clicks, data)\<close> overwrites \<^verbatim>\<open>data.csv\<close>; the model takes the present
  content of the file and returns the new content with the status line, where
  \<open>Some n\<close> reports \<open>n\<close> saved rows.
\<close>

definition save_to_csv :: "nat \<Rightarrow> pydict list \<Rightarrow> string \<Rightarrow> string \<times> nat option" where
  "save_to_csv n_clicks data data_csv =
     (if n_clicks > 0
      then (let df_save = DataFrame data in (to_csv df_save, Some (length (rows df_save))))
      else (data_csv, None))"

section \<open>Variant XneI.py: the built-in week\<close>

text \<open>
  When \<^verbatim>\<open>data.csv\<close> does not exist, XneI.py builds its table from literal columns;
  \<open>None\<close> stands for the missing file.
\<close>

definition dummy_df :: frame where
  "dummy_df =
     \<lparr>columns = [''Day'', ''Steps'', ''Calories''],
      rows = [[S ''Monday'', N 8500, N 350], [S ''Tuesday'', N 9200, N 380],
              [S ''Wednesday'', N 7800, N 320], [S ''Thursday'', N 10500, N 420],
              [S ''Friday'', N 12300, N 500], [S ''Saturday'', N 15200, N 610],
              [S ''Sunday'', N 9500, N 390]]\<rparr>"

definition load_df_XneI :: "string option \<Rightarrow> exn + frame" where
  "load_df_XneI data_csv = (case data_csv of None \<Rightarrow> Inr dummy_df | Some text \<Rightarrow> read_csv text)"

section \<open>Tables of activity records\<close>

text \<open>
  A table of activity records has the three columns Day, Steps and Calories, rows as
  long as the header, and integers in Steps and Calories.  \<open>col_ints\<close> reads a
  numeric column of such a table.
\<close>

definition is_num :: "cell \<Rightarrow> bool" where
  "is_num c = (case c of N a \<Rightarrow> True | _ \<Rightarrow> False)"

fun num :: "cell \<Rightarrow> int" where
  "num (N a) = a"
| "num c = 0"

definition activity_frame :: "frame \<Rightarrow> bool" where
  "activity_frame f \<longleftrightarrow>
     distinct (columns f) \<and> set required_columns \<subseteq> set (columns f) \<and>
     list_all (\<lambda>r. length r = length (columns f) \<and>
                   is_num (lookup (row_dict f r) ''Steps'') \<and>
                   is_num (lookup (row_dict f r) ''Calories'')) (rows f)"

definition col_ints :: "frame \<Rightarrow> string \<Rightarrow> int list" where
  "col_ints f c = map (\<lambda>r. num (lookup (row_dict f r) c)) (rows f)"

text \<open>
  The ActivityRecord of the specification, and the dictionary that stands for it in
  the store.
\<close>

record activity =
  ar_day :: string
  ar_steps :: int
  ar_calories :: int

definition to_dict :: "activity \<Rightarrow> pydict" where
  "to_dict a = [(''Day'', S (ar_day a)), (''Steps'', N (ar_steps a)), (''Calories'', N (ar_calories a))]"

definition to_row :: "activity \<Rightarrow> cell list" where
  "to_row a = [S (ar_day a), N (ar_steps a), N (ar_calories a)]"

text \<open>The record that \<^verbatim>\<open>add_entry\<close> builds from the two fields.\<close>

definition new_entry :: "string \<Rightarrow> int \<Rightarrow> activity" where
  "new_entry d n = \<lparr>ar_day = d, ar_steps = n, ar_calories = auto_calories n\<rparr>"

text \<open>The fields of the line that \<^verbatim>\<open>to_csv\<close> writes for an activity record.\<close>

definition csv_fields :: "activity \<Rightarrow> string list" where
  "csv_fields a = [ar_day a, str_int (ar_steps a), str_int (ar_calories a)]"

text \<open>The first row of a table whose day is the text \<open>d\<close>.\<close>

definition first_match :: "frame \<Rightarrow> string \<Rightarrow> cell list option" where
  "first_match f d = find (\<lambda>r. lookup (row_dict f r) ''Day'' = S d) (rows f)"

text \<open>
  The statistics in the words of the specification: \<open>meanSteps\<close> and \<open>meanCalories\<close>
  are the sum of the column divided by the number of rows, and the ratio of a row is
  its steps divided by \<open>meanSteps\<close>.  The advice callbacks divide by the truncated
  average instead, which \<open>ratio_truncated\<close> writes down.
\<close>

definition meanSteps :: "frame \<Rightarrow> rat" where
  "meanSteps f = rat_of_int (sum_list (col_ints f ''Steps'')) / rat_of_nat (length (rows f))"

definition meanCalories :: "frame \<Rightarrow> rat" where
  "meanCalories f = rat_of_int (sum_list (col_ints f ''Calories'')) / rat_of_nat (length (rows f))"

definition steps_of :: "frame \<Rightarrow> cell list \<Rightarrow> int" where
  "steps_of f r = num (lookup (row_dict f r) ''Steps'')"

definition ratio :: "frame \<Rightarrow> cell list \<Rightarrow> rat" where
  "ratio f r = rat_of_int (steps_of f r) / meanSteps f"

definition ratio_truncated :: "frame \<Rightarrow> cell list \<Rightarrow> rat" where
  "ratio_truncated f r = rat_of_int (steps_of f r) / rat_of_int (trunc (meanSteps f))"

definition advice_Dic7 :: "int \<Rightarrow> string \<times> string" where
  "advice_Dic7 diff = (if diff < - 500 then less_Dic7 else if diff > 500 then more_Dic7 else steady_Dic7)"

text \<open>
  The step difference of the delta policy, in the words of the specification: the
  steps of the last row minus the steps of the row before it.
\<close>

definition stepsDiff :: "frame \<Rightarrow> int" where
  "stepsDiff f = last (col_ints f ''Steps'') - col_ints f ''Steps'' ! (length (rows f) - 2)"

definition advice_of :: "page \<Rightarrow> string \<times> string" where
  "advice_of p = (case p of InsightsPage v \<Rightarrow> (iv_msg v, iv_color v) | _ \<Rightarrow> ([], []))"

definition shown_average :: "page \<Rightarrow> int option" where
  "shown_average p = (case p of SummaryPage s _ _ \<Rightarrow> avg_steps_shown s | _ \<Rightarrow> None)"

definition true_average :: "page \<Rightarrow> rat option" where
  "true_average p = (case p of SummaryPage s _ _ \<Rightarrow> avg_steps s | _ \<Rightarrow> None)"

section \<open>Double precision\<close>

text \<open>
  The definitions above read Python floats as exact rationals.  To compare with what
  the interpreter computes, \<open>double_round\<close> rounds a rational to the nearest IEEE 754
  double, a tie to the even neighbour (magnitudes below \<open>2^1024\<close>; \<open>tiny\<close> is the
  smallest positive double), \<open>double_005\<close> is the double that the literal \<^verbatim>\<open>0.05\<close>
  denotes, and \<open>auto_calories_double\<close> is \<^verbatim>\<open>int(int(steps) * 0.05)\<close> computed in doubles.
\<close>

definition tiny :: rat where
  "tiny = 1 / 2 ^ 1074"

definition double_round :: "rat \<Rightarrow> rat" where
  "double_round x =
     (let y = \<bar>x\<bar> / tiny;
          s = nat (bitlen \<lfloor>y\<rfloor> - 53);
          r = rat_of_int (round_half_even (y / 2 ^ s)) * 2 ^ s * tiny
      in if x < 0 then - r else r)"

definition double_005 :: rat where
  "double_005 = 3602879701896397 / 72057594037927936"

definition auto_calories_double :: "int \<Rightarrow> int" where
  "auto_calories_double steps = trunc (double_round (double_round (rat_of_int steps) * double_005))"

section \<open>Example data\<close>

definition monday_record :: pydict where
  "monday_record = [(''Day'', S ''Monday''), (''Steps'', N 8500), (''Calories'', N 350)]"

definition header_only :: frame where
  "header_only = \<lparr>columns = [''Day'', ''Steps'', ''Calories''], rows = []\<rparr>"

definition no_calories_csv :: string where
  "no_calories_csv = ''Day,Steps'' @ [newline] @ ''Monday,100'' @ [newline]"

definition loaded_state :: app_state where
  "loaded_state = \<lparr>stored_data = Some dummy_df, dashboard = ChartPlaceholders\<rparr>"

definition funday_csv :: string where
  "funday_csv = ''Day,Steps,Calories'' @ [newline] @ ''Funday,100,5'' @ [newline]"

definition two_days :: frame where
  "two_days = \<lparr>columns = [''Day'', ''Steps'', ''Calories''],
               rows = [[S ''Monday'', N 9, N 1], [S ''Tuesday'', N 14, N 1]]\<rparr>"

definition half_step :: frame where
  "half_step = \<lparr>columns = [''Day'', ''Steps'', ''Calories''],
                rows = [[S ''Monday'', N 0, N 0], [S ''Tuesday'', N 1001, N 50]]\<rparr>"

definition funday_store :: "pydict list" where
  "funday_store = [[(''Day'', S ''Funday''), (''Steps'', N 100), (''Calories'', N 5)]]"

section \<open>Basic facts about tables\<close>

lemma and_then_Inr [simp]: "and_then (Inr v) k = k v"
  by (simp add: and_then_def)

lemma and_then_Inl [simp]: "and_then (Inl e) k = Inl e"
  by (simp add: and_then_def)

lemma is_num_N: "is_num c \<Longrightarrow> \<exists>a. c = N a"
  by (cases c) (auto simp: is_num_def)

lemma getitem_row:
  assumes "c \<in> set (columns f)" and "length r = length (columns f)"
  shows "getitem (row_dict f r) c = Inr (lookup (row_dict f r) c)"
proof -
  have "c \<in> fst ` set (zip (columns f) r)"
    using assms by (metis map_fst_zip set_map)
  then obtain v where "map_of (zip (columns f) r) c = Some v"
    by (metis map_of_eq_None_iff not_None_eq)
  then show ?thesis
    by (simp add: getitem_def lookup_def row_dict_def)
qed

lemma iloc_last:
  "rows f \<noteq> [] \<Longrightarrow> iloc f (- 1) = Inr (row_dict f (last (rows f)))"
  by (auto simp: iloc_def Let_def last_conv_nth nat_diff_distrib')

lemma iloc_prev:
  "2 \<le> length (rows f) \<Longrightarrow> iloc f (- 2) = Inr (row_dict f (rows f ! (length (rows f) - 2)))"
  by (auto simp: iloc_def Let_def nat_diff_distrib')

lemma activity_frame_columns:
  assumes "activity_frame f"
  shows "''Day'' \<in> set (columns f)" and "''Steps'' \<in> set (columns f)"
    and "''Calories'' \<in> set (columns f)"
  using assms by (auto simp: activity_frame_def required_columns_def)

lemma activity_frame_row:
  assumes "activity_frame f" and "r \<in> set (rows f)"
  shows "length r = length (columns f)"
    and "\<exists>a. lookup (row_dict f r) ''Steps'' = N a"
    and "\<exists>a. lookup (row_dict f r) ''Calories'' = N a"
  using assms by (auto simp: activity_frame_def list_all_iff dest: is_num_N)

lemma make_charts_activity:
  assumes "activity_frame f"
  shows "\<exists>figs. make_charts f = Inr figs"
  using activity_frame_columns [OF assms]
  by (simp add: make_charts_def px_chart_def getcol_def)

section \<open>The delta policy\<close>

lemma insights_body_activity:
  assumes af: "activity_frame f" and n: "2 \<le> length (rows f)"
  shows "\<exists>v. insights_body advice f = Inr (InsightsPage v) \<and>
           iv_diff_steps v = N (stepsDiff f) \<and>
           (iv_msg v, iv_color v) = advice (N (stepsDiff f))"
proof -
  let ?y = "last (rows f)" and ?p = "rows f ! (length (rows f) - 2)"
  from n have ne: "rows f \<noteq> []" by auto
  have yin: "?y \<in> set (rows f)" using ne by simp
  have pin: "?p \<in> set (rows f)" using n by simp
  note cs = activity_frame_columns [OF af]
  note yr = activity_frame_row [OF af yin]
  note pr = activity_frame_row [OF af pin]
  obtain ys yc where ys: "lookup (row_dict f ?y) ''Steps'' = N ys"
    and yc: "lookup (row_dict f ?y) ''Calories'' = N yc"
    using yr by blast
  obtain ps pc where ps: "lookup (row_dict f ?p) ''Steps'' = N ps"
    and pc: "lookup (row_dict f ?p) ''Calories'' = N pc"
    using pr by blast
  obtain figs where figs: "make_charts f = Inr figs"
    using make_charts_activity [OF af] by blast
  have sd: "stepsDiff f = ys - ps"
    using ne by (simp add: stepsDiff_def col_ints_def last_map ys ps)
  show ?thesis
    by (simp add: insights_body_def iloc_last [OF ne] iloc_prev [OF n] sub_cell_def
        getitem_row [OF _ yr(1)] getitem_row [OF _ pr(1)] cs ys yc ps pc figs sd)
qed

lemma advice_texts_distinct:
  "success_1pc4 \<noteq> danger_1pc4" "success_1pc4 \<noteq> neutral_1pc4" "danger_1pc4 \<noteq> neutral_1pc4"
  "success_SNbo \<noteq> danger_SNbo" "success_SNbo \<noteq> neutral_SNbo" "danger_SNbo \<noteq> neutral_SNbo"
  by (simp_all add: success_1pc4_def danger_1pc4_def neutral_1pc4_def
      success_SNbo_def danger_SNbo_def neutral_SNbo_def)

text \<open>
  Claim C2.  For every table of activity records with at least two rows, the insights
  pages of 1pc4.py and SNbo.py are rendered, and with \<open>stepsDiff\<close> the steps of the
  last row minus the steps of the row before it, the advice is the success message
  exactly when \<open>stepsDiff > 500\<close>, the danger message exactly when \<open>stepsDiff < -500\<close>
  and the neutral, consistent message exactly in between; the boundary values
  \<open>500\<close> and \<open>-500\<close> give the neutral message.
\<close>

theorem delta_policy:
  assumes "activity_frame f" and "2 \<le> length (rows f)"
  shows "\<exists>p q. insights_page_1pc4 f = Inr p \<and> insights_page_SNbo f = Inr q \<and>
    (advice_of p = success_1pc4 \<longleftrightarrow> 500 < stepsDiff f) \<and>
    (advice_of p = danger_1pc4 \<longleftrightarrow> stepsDiff f < - 500) \<and>
    (advice_of p = neutral_1pc4 \<longleftrightarrow> - 500 \<le> stepsDiff f \<and> stepsDiff f \<le> 500) \<and>
    (advice_of q = success_SNbo \<longleftrightarrow> 500 < stepsDiff f) \<and>
    (advice_of q = danger_SNbo \<longleftrightarrow> stepsDiff f < - 500) \<and>
    (advice_of q = neutral_SNbo \<longleftrightarrow> - 500 \<le> stepsDiff f \<and> stepsDiff f \<le> 500) \<and>
    (stepsDiff f = 500 \<or> stepsDiff f = - 500 \<longrightarrow>
       advice_of p = neutral_1pc4 \<and> advice_of q = neutral_SNbo)"
proof -
  obtain v where v: "insights_body delta_advice_1pc4 f = Inr (InsightsPage v)"
    and a: "(iv_msg v, iv_color v) = delta_advice_1pc4 (N (stepsDiff f))"
    using insights_body_activity [OF assms] by blast
  obtain w where w: "insights_body delta_advice_SNbo f = Inr (InsightsPage w)"
    and b: "(iv_msg w, iv_color w) = delta_advice_SNbo (N (stepsDiff f))"
    using insights_body_activity [OF assms] by blast
  have p: "advice_of (InsightsPage v) =
      (if 500 < stepsDiff f then success_1pc4
       else if stepsDiff f < - 500 then danger_1pc4 else neutral_1pc4)"
    using a by (simp add: advice_of_def delta_advice_1pc4_def)
  have q: "advice_of (InsightsPage w) =
      (if 500 < stepsDiff f then success_SNbo
       else if stepsDiff f < - 500 then danger_SNbo else neutral_SNbo)"
    using b by (simp add: advice_of_def delta_advice_SNbo_def)
  show ?thesis
    unfolding insights_page_1pc4_def insights_page_SNbo_def v w
    using advice_texts_distinct by (auto simp: p q)
qed

theorem delta_policy_witness:
  "activity_frame dummy_df \<and> 2 \<le> length (rows dummy_df) \<and> stepsDiff dummy_df = - 5700 \<and>
   (\<exists>p. insights_page_1pc4 dummy_df = Inr p \<and> advice_of p = danger_1pc4)"
proof -
  have h1: "activity_frame dummy_df" by code_simp
  have h2: "2 \<le> length (rows dummy_df)" by code_simp
  have d: "stepsDiff dummy_df = - 5700" by code_simp
  from delta_policy [OF h1 h2] d show ?thesis
    using h1 h2 by auto
qed

section \<open>Fewer than two rows\<close>

text \<open>
  In 9UCN.py the insights callback tests the number of rows before it looks at the
  last two, and the dashboard charts only need the validated columns.
\<close>

lemma update_insights_few_rows:
  "length (rows f) < 2 \<Longrightarrow> update_insights (Some f) = Inr (NoticePage need_two_days)"
  by (simp add: update_insights_def)

lemma charts_9UCN:
  assumes "set required_columns \<subseteq> set (columns f)"
  shows "\<exists>c d. update_steps_chart (Some f) = Inr (Some c) \<and>
               update_calories_chart (Some f) = Inr (Some d)"
  using assms
  by (simp add: update_steps_chart_def update_calories_chart_def px_chart_def getcol_def
      required_columns_def)

lemma insights_body_one_row:
  "length (rows f) = 1 \<Longrightarrow> insights_body advice f = Inl IndexError"
  by (simp add: insights_body_def iloc_def Let_def)

text \<open>
  Claim C5 on 1pc4.py and SfUI.py.  With the single record of Monday in the store the
  dashboard of 1pc4.py is rendered, but the insights pages of 1pc4.py and of SfUI.py
  raise IndexError at \<^verbatim>\<open>iloc[-2]\<close> where the claim asks for a notice.
\<close>

theorem insights_single_row:
  "routing_1pc4 ''/'' [monday_record] =
     Inr (DashboardPage 8500 350
            \<lparr>kind = Line, x_values = [S ''Monday''], y_values = [N 8500]\<rparr>
            \<lparr>kind = Bar, x_values = [S ''Monday''], y_values = [N 350]\<rparr>) \<and>
   routing_1pc4 ''/insights'' [monday_record] = Inl IndexError \<and>
   routing_SfUI ''/insights'' (Some [monday_record]) = Inl IndexError"
  by code_simp

section \<open>The empty dataset\<close>

text \<open>
  SfUI.py answers an empty store with a notice on both pages, and the chart callbacks
  of 9UCN.py draw an empty table that has the columns.
\<close>

lemma routing_SfUI_empty:
  "routing_SfUI pathname (Some []) =
     Inr (NoticePage (if pathname = ''/insights'' then no_data_SfUI else upload_prompt_SfUI))"
  by (simp add: routing_SfUI_def insights_page_SfUI_def dashboard_page_SfUI_def)

lemma routing_SfUI_None:
  "routing_SfUI pathname None =
     Inr (NoticePage (if pathname = ''/insights'' then no_data_SfUI else upload_prompt_SfUI))"
  by (simp add: routing_SfUI_def insights_page_SfUI_def dashboard_page_SfUI_def)

lemma charts_header_only:
  "update_steps_chart (Some header_only) = Inr (Some \<lparr>kind = Line, x_values = [], y_values = []\<rparr>)"
  by code_simp

text \<open>
  Claim C6 on 1pc4.py and app.py.  With an empty store, both pages of 1pc4.py raise:
  the table built from no records has no columns, so the chart builder fails on the
  dashboard and \<^verbatim>\<open>iloc[-1]\<close> on the insights page.  In app.py the summary of an
  uploaded table without rows raises at \<^verbatim>\<open>idxmax\<close>.
\<close>

theorem empty_dataset_raises:
  "routing_1pc4 ''/'' [] = Inl ValueError \<and>
   routing_1pc4 ''/insights'' [] = Inl IndexError \<and>
   dashboard_page_1pc4 header_only = Inl ValueError \<and>
   update_output_content (Some header_only) = Inl ValueError"
  by code_simp

section \<open>Upload of a table that lacks a required column\<close>




section \<open>Day normalization\<close>

lemma lookup_zip_map:
  "k \<in> set ks \<Longrightarrow> lookup (zip ks (map h ks)) k = h k"
  by (simp add: lookup_def map_of_zip_map)

lemma cat_code_unknown: "d \<notin> set weekdays \<Longrightarrow> cat_code weekdays (S d) = - 1"
  by (auto simp: cat_code_def weekdays_def)

lemma cat_code_weekdays:
  "map (\<lambda>d. cat_code weekdays (S d)) weekdays = [0, 1, 2, 3, 4, 5, 6]"
  by (simp add: cat_code_def weekdays_def)




section \<open>Statistics\<close>

lemma numbers_map_N: "numbers (map N xs) = Inr xs"
  by (induction xs) simp_all

lemma getcol_activity:
  assumes "activity_frame f" and "c = ''Steps'' \<or> c = ''Calories''"
  shows "getcol f c = Inr (map N (col_ints f c))"
proof -
  have "c \<in> set (columns f)"
    using assms activity_frame_columns by blast
  moreover have "lookup (row_dict f r) c = N (num (lookup (row_dict f r) c))"
    if "r \<in> set (rows f)" for r
    using activity_frame_row [OF assms(1) that] assms(2) by auto
  ultimately show ?thesis
    by (simp add: getcol_def col_ints_def)
qed

lemma length_col_ints [simp]: "length (col_ints f c) = length (rows f)"
  by (simp add: col_ints_def)

lemma col_ints_Nil [simp]: "col_ints f c = [] \<longleftrightarrow> rows f = []"
  by (simp add: col_ints_def)

lemma mean_activity:
  assumes "activity_frame f" and "rows f \<noteq> []" and "c = ''Steps'' \<or> c = ''Calories''"
  shows "and_then (getcol f c) mean =
           Inr (Some (rat_of_int (sum_list (col_ints f c)) / rat_of_nat (length (rows f))))"
  using assms(2)
  by (simp add: getcol_activity [OF assms(1,3)] mean_def numbers_map_N)

lemma fold_max_mem: "fold max xs (a::int) \<in> set (a # xs)"
  by (induction xs arbitrary: a) (auto simp: max_def)

lemma index_of_mem:
  "x \<in> set xs \<Longrightarrow> \<exists>i. index_of x xs = Some i \<and> i < length xs \<and> xs ! i = x"
  by (induction xs) auto

lemma idxmax_activity:
  assumes "xs \<noteq> []"
  shows "\<exists>i. idxmax (map N xs) = Inr i \<and> i < length xs"
proof -
  obtain a as where xs: "xs = a # as" using assms by (cases xs) auto
  have "N (fold max as a) \<in> set (map N xs)"
    using fold_max_mem [of as a] by (auto simp: xs)
  from index_of_mem [OF this] obtain i where "index_of (N (fold max as a)) (map N xs) = Some i"
    and "i < length xs" by auto
  then show ?thesis
    by (simp add: idxmax_def numbers_map_N xs)
qed

lemma iloc_nth: "i < length (rows f) \<Longrightarrow> iloc f (int i) = Inr (row_dict f (rows f ! i))"
  by (simp add: iloc_def Let_def)

lemma update_output_content_activity:
  assumes af: "activity_frame f" and ne: "rows f \<noteq> []"
  shows "\<exists>s c1 c2. update_output_content (Some f) = Inr (SummaryPage s c1 c2) \<and>
           avg_steps s = Some (rat_of_int (sum_list (col_ints f ''Steps'')) / rat_of_nat (length (rows f))) \<and>
           avg_steps_shown s = Some (round_half_even
             (rat_of_int (sum_list (col_ints f ''Steps'')) / rat_of_nat (length (rows f)))) \<and>
           total_steps s = sum_list (col_ints f ''Steps'') \<and>
           total_calories s = sum_list (col_ints f ''Calories'')"
proof -
  note cs = activity_frame_columns [OF af]
  have ne': "col_ints f ''Steps'' \<noteq> []" using ne by simp
  obtain i where i: "idxmax (map N (col_ints f ''Steps'')) = Inr i" and il: "i < length (rows f)"
    using idxmax_activity [OF ne'] by auto
  have rin: "rows f ! i \<in> set (rows f)" using il by simp
  note rl = activity_frame_row(1) [OF af rin]
  obtain ds where ds: "getcol f ''Day'' = Inr ds"
    using cs(1) by (simp add: getcol_def)
  show ?thesis
    using ne
    by (simp add: ds update_output_content_def getcol_activity [OF af] mean_def sum_col_def
        numbers_map_N i iloc_nth [OF il] getitem_row [OF _ rl] cs px_chart_def)
qed

lemma find_filter: "find P xs = Some r \<Longrightarrow> \<exists>ys. filter P xs = r # ys"
  by (induction xs) (auto split: if_splits)

lemma find_mem: "find P xs = Some r \<Longrightarrow> r \<in> set xs \<and> P r"
  by (induction xs) (auto split: if_splits)

lemma avg_global_activity:
  assumes "activity_frame f" and "rows f \<noteq> []"
  shows "avg_steps_global f = Inr (trunc (meanSteps f))"
    and "avg_cal_global f = Inr (trunc (meanCalories f))"
  using assms(2)
  by (simp_all add: avg_steps_global_def avg_cal_global_def getcol_activity [OF assms(1)]
      mean_def numbers_map_N py_int_def meanSteps_def meanCalories_def)

lemma first_match_row:
  assumes af: "activity_frame f" and fm: "first_match f d = Some r"
  shows "\<exists>sel ys. select_eq f ''Day'' (Some d) = Inr sel \<and> columns sel = columns f \<and>
           rows sel = r # ys \<and> set ys \<subseteq> set (rows f)"
    and "r \<in> set (rows f)"
proof -
  from fm obtain ys where ys: "filter (\<lambda>r. lookup (row_dict f r) ''Day'' = S d) (rows f) = r # ys"
    unfolding first_match_def by (blast dest: find_filter)
  have "set ys \<subseteq> set (rows f)"
    by (metis ys filter_is_subset set_subset_Cons subset_trans)
  then show "\<exists>sel ys. select_eq f ''Day'' (Some d) = Inr sel \<and> columns sel = columns f \<and>
           rows sel = r # ys \<and> set ys \<subseteq> set (rows f)"
    using activity_frame_columns(1) [OF af] ys by (simp add: select_eq_def)
  show "r \<in> set (rows f)"
    using fm unfolding first_match_def by (blast dest: find_mem)
qed

lemma row_dict_cong: "columns g = columns f \<Longrightarrow> row_dict g r = row_dict f r"
  by (simp add: row_dict_def)

lemma first_match_steps:
  assumes af: "activity_frame f" and fm: "first_match f d = Some r"
  shows "\<exists>sel c. select_eq f ''Day'' (Some d) = Inr sel \<and>
           iloc sel 0 = Inr (row_dict f r) \<and>
           getitem (row_dict f r) ''Steps'' = Inr (N (steps_of f r)) \<and>
           and_then (getcol sel ''Steps'') first_value = Inr (N (steps_of f r)) \<and>
           and_then (getcol sel ''Calories'') first_value = Inr (N c)"
proof -
  from first_match_row [OF af fm] obtain sel ys
    where sel: "select_eq f ''Day'' (Some d) = Inr sel" and cols: "columns sel = columns f"
      and rws: "rows sel = r # ys" and rin: "r \<in> set (rows f)"
    by blast
  note cs = activity_frame_columns [OF af]
  note rr = activity_frame_row [OF af rin]
  obtain s c where s: "lookup (row_dict f r) ''Steps'' = N s"
    and c: "lookup (row_dict f r) ''Calories'' = N c"
    using rr by blast
  have so: "steps_of f r = s" by (simp add: steps_of_def s)
  have "iloc sel 0 = Inr (row_dict f r)"
    by (simp add: iloc_def Let_def rws row_dict_cong [OF cols])
  moreover have "getitem (row_dict f r) ''Steps'' = Inr (N (steps_of f r))"
    by (simp add: getitem_row [OF cs(2) rr(1)] s so)
  moreover have "and_then (getcol sel ''Steps'') first_value = Inr (N (steps_of f r))"
    by (simp add: getcol_def cols cs rws first_value_def row_dict_cong [OF cols] s so)
  moreover have "and_then (getcol sel ''Calories'') first_value = Inr (N c)"
    by (simp add: getcol_def cols cs rws first_value_def row_dict_cong [OF cols] c)
  ultimately show ?thesis using sel by blast
qed

lemma generate_advice_activity:
  assumes af: "activity_frame f" and fm: "first_match f d = Some r" and d: "d \<noteq> []"
  shows "generate_advice f (Some d) =
           Inr (Some \<lparr>ac_day = d, ac_steps = steps_of f r,
                      ac_msg = fst (advice_Dic7 (steps_of f r - trunc (meanSteps f))),
                      ac_color = snd (advice_Dic7 (steps_of f r - trunc (meanSteps f)))\<rparr>)"
proof -
  have ne: "rows f \<noteq> []" using first_match_row(2) [OF af fm] by auto
  from first_match_steps [OF af fm] obtain sel
    where "select_eq f ''Day'' (Some d) = Inr sel" "iloc sel 0 = Inr (row_dict f r)"
      "getitem (row_dict f r) ''Steps'' = Inr (N (steps_of f r))"
    by blast
  then show ?thesis
    using d by (simp add: generate_advice_def avg_global_activity [OF af ne] Let_def advice_Dic7_def)
qed

lemma update_advice_activity:
  assumes af: "activity_frame f" and fm: "first_match f d = Some r" and d: "d \<noteq> []"
  shows "\<exists>a b. update_advice_9VqS f (Some d) = Inr a \<and>
           update_advice_4EJM f (Some d) = Inr (Some b) \<and>
           ac_msg a =
             (if rat_of_int (steps_of f r) < rat_of_int (trunc (meanSteps f)) * (8 / 10)
              then below_9VqS
              else if rat_of_int (steps_of f r) > rat_of_int (trunc (meanSteps f)) * (11 / 10)
              then above_9VqS else around_9VqS) \<and>
           ac_msg b =
             (if rat_of_int (steps_of f r) < rat_of_int (trunc (meanSteps f)) * (8 / 10)
              then below_4EJM
              else if rat_of_int (steps_of f r) > rat_of_int (trunc (meanSteps f)) * (12 / 10)
              then above_4EJM else around_4EJM)"
proof -
  have ne: "rows f \<noteq> []" using first_match_row(2) [OF af fm] by auto
  from first_match_steps [OF af fm] obtain sel c
    where sel: "select_eq f ''Day'' (Some d) = Inr sel"
      and st: "and_then (getcol sel ''Steps'') first_value = Inr (N (steps_of f r))"
      and ca: "and_then (getcol sel ''Calories'') first_value = Inr (N c)"
    by blast
  obtain sc where sc: "getcol sel ''Steps'' = Inr sc" and sc1: "first_value sc = Inr (N (steps_of f r))"
    using st by (cases "getcol sel ''Steps''") auto
  obtain cc where cc: "getcol sel ''Calories'' = Inr cc" and cc1: "first_value cc = Inr (N c)"
    using ca by (cases "getcol sel ''Calories''") auto
  show ?thesis
    using d
    by (simp add: update_advice_9VqS_def update_advice_4EJM_def avg_global_activity [OF af ne]
        sel sc sc1 cc cc1 Let_def)
qed






section \<open>The ratio policy\<close>

lemma ratio_texts_distinct:
  "below_9VqS \<noteq> above_9VqS" "below_9VqS \<noteq> around_9VqS" "above_9VqS \<noteq> around_9VqS"
  "below_4EJM \<noteq> above_4EJM" "below_4EJM \<noteq> around_4EJM" "above_4EJM \<noteq> around_4EJM"
  by (simp_all add: below_9VqS_def above_9VqS_def around_9VqS_def
      below_4EJM_def above_4EJM_def around_4EJM_def)

lemma ratio_compare:
  fixes s avg :: int
  assumes "0 < avg"
  shows "rat_of_int s < rat_of_int avg * q \<longleftrightarrow> rat_of_int s / rat_of_int avg < q"
    and "rat_of_int avg * q < rat_of_int s \<longleftrightarrow> q < rat_of_int s / rat_of_int avg"
  using assms by (simp_all add: pos_divide_less_eq pos_less_divide_eq mult.commute)

text \<open>
  Claim C3, as the code has it.  9VqS.py and 4EJM.py compare the steps of the first row
  of the chosen day with the truncated average
  \<^verbatim>\<open>avg_steps = int(df["Steps"].mean())\<close>.  When that average is positive, and with the
  ratio taken against it, the advice is the below-average text exactly when the ratio
  is under 0.8, the above-average text exactly when it is over 1.1 (9VqS.py) or 1.2
  (4EJM.py), and the neutral text otherwise; the ratio 0.8 gives the neutral text.
\<close>

theorem ratio_policy:
  assumes "activity_frame f" and "first_match f d = Some r" and "d \<noteq> []"
    and "0 < trunc (meanSteps f)"
  shows "\<exists>a b. update_advice_9VqS f (Some d) = Inr a \<and>
           update_advice_4EJM f (Some d) = Inr (Some b) \<and>
           (ac_msg a = below_9VqS \<longleftrightarrow> ratio_truncated f r < 8 / 10) \<and>
           (ac_msg a = above_9VqS \<longleftrightarrow> 11 / 10 < ratio_truncated f r) \<and>
           (ac_msg a = around_9VqS \<longleftrightarrow>
              8 / 10 \<le> ratio_truncated f r \<and> ratio_truncated f r \<le> 11 / 10) \<and>
           (ac_msg b = below_4EJM \<longleftrightarrow> ratio_truncated f r < 8 / 10) \<and>
           (ac_msg b = above_4EJM \<longleftrightarrow> 12 / 10 < ratio_truncated f r) \<and>
           (ac_msg b = around_4EJM \<longleftrightarrow>
              8 / 10 \<le> ratio_truncated f r \<and> ratio_truncated f r \<le> 12 / 10) \<and>
           (ratio_truncated f r = 8 / 10 \<longrightarrow>
              ac_msg a = around_9VqS \<and> ac_msg b = around_4EJM)"
proof -
  let ?s = "rat_of_int (steps_of f r)" and ?avg = "rat_of_int (trunc (meanSteps f))"
  let ?q = "ratio_truncated f r"
  obtain a b where a: "update_advice_9VqS f (Some d) = Inr a"
    and b: "update_advice_4EJM f (Some d) = Inr (Some b)"
    and ma: "ac_msg a = (if ?s < ?avg * (8 / 10) then below_9VqS
              else if ?s > ?avg * (11 / 10) then above_9VqS else around_9VqS)"
    and mb: "ac_msg b = (if ?s < ?avg * (8 / 10) then below_4EJM
              else if ?s > ?avg * (12 / 10) then above_4EJM else around_4EJM)"
    using update_advice_activity [OF assms(1-3)] by blast
  have q: "?q = ?s / ?avg" by (simp add: ratio_truncated_def)
  have ma': "ac_msg a = (if ?q < 8 / 10 then below_9VqS
              else if 11 / 10 < ?q then above_9VqS else around_9VqS)"
    unfolding ma q ratio_compare [OF assms(4)] by simp
  have mb': "ac_msg b = (if ?q < 8 / 10 then below_4EJM
              else if 12 / 10 < ?q then above_4EJM else around_4EJM)"
    unfolding mb q ratio_compare [OF assms(4)] by simp
  show ?thesis
    using ratio_texts_distinct
    by (intro exI [of _ a] exI [of _ b]) (auto simp: a b ma' mb')
qed

theorem ratio_policy_witness:
  "activity_frame two_days \<and>
   first_match two_days ''Monday'' = Some [S ''Monday'', N 9, N 1] \<and>
   0 < trunc (meanSteps two_days) \<and>
   ratio_truncated two_days [S ''Monday'', N 9, N 1] = 9 / 11 \<and>
   (\<exists>a b. update_advice_9VqS two_days (Some ''Monday'') = Inr a \<and>
         update_advice_4EJM two_days (Some ''Monday'') = Inr (Some b) \<and>
         ac_msg a = around_9VqS \<and> ac_msg b = around_4EJM)"
proof -
  have h1: "activity_frame two_days" by code_simp
  have h2: "first_match two_days ''Monday'' = Some [S ''Monday'', N 9, N 1]" by code_simp
  have h3: "''Monday'' \<noteq> []" by simp
  have h4: "0 < trunc (meanSteps two_days)" by code_simp
  have q: "ratio_truncated two_days [S ''Monday'', N 9, N 1] = 9 / 11" by code_simp
  from ratio_policy [OF h1 h2 h3 h4] show ?thesis
    using h1 h2 h4 by (auto simp: q)
qed

text \<open>
  The claim as stated, with the ratio taken against the mean itself, fails: for the two
  days with 9 and 14 steps the mean is 11.5, the ratio of Monday is 18/23, under 0.8,
  and both variants answer with the neutral text, since 9 is not under 0.8 times 11.
\<close>

theorem ratio_true_mean_differs:
  "activity_frame two_days \<and>
   first_match two_days ''Monday'' = Some [S ''Monday'', N 9, N 1] \<and>
   meanSteps two_days = 23 / 2 \<and>
   ratio two_days [S ''Monday'', N 9, N 1] = 18 / 23 \<and>
   ratio two_days [S ''Monday'', N 9, N 1] < 8 / 10 \<and>
   update_advice_9VqS two_days (Some ''Monday'') =
     Inr \<lparr>ac_day = ''Monday'', ac_steps = 9, ac_msg = around_9VqS, ac_color = []\<rparr> \<and>
   update_advice_4EJM two_days (Some ''Monday'') =
     Inr (Some \<lparr>ac_day = ''Monday'', ac_steps = 9, ac_msg = around_4EJM, ac_color = []\<rparr>) \<and>
   around_9VqS \<noteq> below_9VqS \<and> around_4EJM \<noteq> below_4EJM"
  by code_simp

section \<open>Datasets of activity records\<close>

lemma keys_fold_fixed:
  assumes "\<forall>d \<in> set recs. set (map fst d) \<subseteq> set acc"
  shows "fold (\<lambda>d acc. acc @ filter (\<lambda>k. k \<notin> set acc) (map fst d)) recs acc = acc"
  using assms
proof (induction recs arbitrary: acc)
  case Nil
  then show ?case by simp
next
  case (Cons d recs)
  have "filter (\<lambda>k. k \<notin> set acc) (map fst d) = []"
    using Cons.prems by (auto simp: filter_empty_conv)
  then show ?case using Cons by simp
qed

lemma keys_union_activity:
  "acts \<noteq> [] \<Longrightarrow> keys_union (map to_dict acts) = required_columns"
proof (cases acts)
  case Nil
  then show "acts \<noteq> [] \<Longrightarrow> ?thesis" by simp
next
  case (Cons a as)
  have "\<forall>d \<in> set (map to_dict as). set (map fst d) \<subseteq> set required_columns"
    by (auto simp: to_dict_def required_columns_def)
  from keys_fold_fixed [OF this] show ?thesis
    by (simp add: keys_union_def Cons to_dict_def required_columns_def)
qed

lemma lookup_to_dict:
  "map (lookup (to_dict a)) required_columns = to_row a"
  by (simp add: to_dict_def to_row_def required_columns_def lookup_def)

lemma DataFrame_activity:
  "acts \<noteq> [] \<Longrightarrow>
     DataFrame (map to_dict acts) = \<lparr>columns = required_columns, rows = map to_row acts\<rparr>"
  by (simp add: DataFrame_def keys_union_activity lookup_to_dict)

lemma DataFrame_Nil: "DataFrame [] = \<lparr>columns = [], rows = []\<rparr>"
  by (simp add: DataFrame_def keys_union_def)

lemma row_dict_to_row:
  "columns f = required_columns \<Longrightarrow> row_dict f (to_row a) = to_dict a"
  by (simp add: row_dict_def to_row_def to_dict_def required_columns_def)

lemma to_dict_records_activity:
  "to_dict_records \<lparr>columns = required_columns, rows = map to_row acts\<rparr> = map to_dict acts"
  by (simp add: to_dict_records_def row_dict_to_row)

lemma activity_frame_typed:
  "activity_frame \<lparr>columns = required_columns, rows = map to_row acts\<rparr>"
  by (simp add: activity_frame_def list_all_iff row_dict_to_row)
     (auto simp: required_columns_def to_row_def to_dict_def lookup_def is_num_def)

lemma trunc_div20: "0 \<le> n \<Longrightarrow> auto_calories n = n div 20"
proof -
  assume n: "0 \<le> n"
  have f: "\<lfloor>rat_of_int n / rat_of_int 20\<rfloor> = n div 20"
    by (rule floor_divide_of_int_eq)
  have "0 \<le> rat_of_int n * (5 / 100)" using n by simp
  then show ?thesis
    using f by (simp add: auto_calories_def trunc_def)
qed

section \<open>Adding an entry\<close>

lemma getitem_zip_map:
  "k \<in> set ks \<Longrightarrow> getitem (zip ks (map h ks)) k = Inr (h k)"
  by (simp add: getitem_def map_of_zip_map)

lemma DataFrame_single:
  "DataFrame [to_dict a] = \<lparr>columns = required_columns, rows = [to_row a]\<rparr>"
  using DataFrame_activity [of "[a]"] by simp

lemma make_charts_columns:
  "set required_columns \<subseteq> set (columns f) \<Longrightarrow> \<exists>figs. make_charts f = Inr figs"
  by (simp add: make_charts_def px_chart_def getcol_def required_columns_def)

lemma add_entry_unfold:
  assumes "0 < n_clicks" and "d \<noteq> []" and "n \<noteq> 0"
  shows "add_entry n_clicks (Some d) (Some n) current =
     and_then (make_charts (pd_concat (DataFrame current) (DataFrame [to_dict (new_entry d n)])))
       (\<lambda>figs. Inr (to_dict_records (pd_concat (DataFrame current) (DataFrame [to_dict (new_entry d n)])),
                    Added d n (auto_calories n), fst figs))"
  using assms by (simp add: add_entry_def fields_missing_def Let_def to_dict_def new_entry_def)

lemma pd_concat_single:
  "pd_concat f \<lparr>columns = required_columns, rows = [to_row a]\<rparr> =
     \<lparr>columns = columns f @ filter (\<lambda>c. c \<notin> set (columns f)) required_columns,
      rows = map (\<lambda>r. map (lookup (row_dict f r))
                   (columns f @ filter (\<lambda>c. c \<notin> set (columns f)) required_columns)) (rows f)
           @ [map (lookup (to_dict a))
                   (columns f @ filter (\<lambda>c. c \<notin> set (columns f)) required_columns)]\<rparr>"
  by (simp add: pd_concat_def Let_def row_dict_to_row)

lemma add_entry_appends:
  assumes "0 < n_clicks" and "d \<noteq> []" and "0 < n"
  shows "\<exists>recs fig. add_entry n_clicks (Some d) (Some n) current =
           Inr (recs, Added d n (n div 20), fig) \<and>
         length recs = Suc (length current) \<and>
         getitem (last recs) ''Day'' = Inr (S d) \<and>
         getitem (last recs) ''Steps'' = Inr (N n) \<and>
         getitem (last recs) ''Calories'' = Inr (N (n div 20))"
proof -
  let ?f = "DataFrame current"
  let ?cols = "columns ?f @ filter (\<lambda>c. c \<notin> set (columns ?f)) required_columns"
  let ?a = "new_entry d n"
  let ?g = "pd_concat ?f (DataFrame [to_dict ?a])"
  have g: "?g = \<lparr>columns = ?cols,
      rows = map (\<lambda>r. map (lookup (row_dict ?f r)) ?cols) (rows ?f)
           @ [map (lookup (to_dict ?a)) ?cols]\<rparr>"
    by (simp only: DataFrame_single pd_concat_single)
  have sub: "set required_columns \<subseteq> set (columns ?g)"
    unfolding g by auto
  obtain figs where figs: "make_charts ?g = Inr figs"
    using make_charts_columns [OF sub] by blast
  let ?recs = "to_dict_records ?g"
  have n0: "n \<noteq> 0" using assms(3) by simp
  have cal: "auto_calories n = n div 20" using assms(3) by (simp add: trunc_div20)
  have e: "add_entry n_clicks (Some d) (Some n) current = Inr (?recs, Added d n (n div 20), fst figs)"
    by (simp add: add_entry_unfold [OF assms(1,2) n0] figs cal)
  have len: "length ?recs = Suc (length current)"
    unfolding g by (simp add: to_dict_records_def DataFrame_def)
  have last: "last ?recs = zip ?cols (map (lookup (to_dict ?a)) ?cols)"
    unfolding g by (simp add: to_dict_records_def row_dict_def)
  have k: "getitem (last ?recs) k = Inr (lookup (to_dict ?a) k)" if "k \<in> set required_columns" for k
  proof -
    from that have "k \<in> set ?cols" by auto
    then show ?thesis unfolding last by (rule getitem_zip_map)
  qed
  have v: "lookup (to_dict ?a) ''Day'' = S d" "lookup (to_dict ?a) ''Steps'' = N n"
    "lookup (to_dict ?a) ''Calories'' = N (n div 20)"
    by (simp_all add: to_dict_def new_entry_def lookup_def cal)
  have "getitem (last ?recs) ''Day'' = Inr (S d)"
    "getitem (last ?recs) ''Steps'' = Inr (N n)"
    "getitem (last ?recs) ''Calories'' = Inr (N (n div 20))"
    using k [of "''Day''"] k [of "''Steps''"] k [of "''Calories''"]
    by (simp_all only: v) (simp_all add: required_columns_def)
  with e len show ?thesis by blast
qed

lemma add_entry_typed:
  assumes "0 < n_clicks" and "d \<noteq> []" and "0 < n"
  shows "\<exists>fig. add_entry n_clicks (Some d) (Some n) (map to_dict acts) =
           Inr (map to_dict acts @ [to_dict \<lparr>ar_day = d, ar_steps = n, ar_calories = n div 20\<rparr>],
                Added d n (n div 20), fig)"
proof -
  let ?a = "new_entry d n"
  let ?g = "pd_concat (DataFrame (map to_dict acts)) (DataFrame [to_dict ?a])"
  have g: "?g = \<lparr>columns = required_columns, rows = map to_row (acts @ [?a])\<rparr>"
  proof (cases "acts = []")
    case True
    then show ?thesis
      by (simp add: DataFrame_Nil DataFrame_single pd_concat_def Let_def row_dict_to_row lookup_to_dict)
  next
    case False
    have "map (\<lambda>r. map (lookup (row_dict \<lparr>columns = required_columns, rows = map to_row acts\<rparr> r))
             required_columns) (map to_row acts) = map to_row acts"
      by (simp add: row_dict_to_row lookup_to_dict)
    then show ?thesis
      by (simp add: DataFrame_activity [OF False] DataFrame_single pd_concat_def Let_def
          row_dict_to_row lookup_to_dict)
  qed
  obtain figs where figs: "make_charts ?g = Inr figs"
    using make_charts_columns [of ?g] unfolding g by auto
  have n0: "n \<noteq> 0" using assms(3) by simp
  have cal: "auto_calories n = n div 20" using assms(3) by (simp add: trunc_div20)
  have r: "to_dict_records ?g = map to_dict (acts @ [?a])"
    unfolding g by (rule to_dict_records_activity)
  have "add_entry n_clicks (Some d) (Some n) (map to_dict acts) =
      Inr (map to_dict (acts @ [?a]), Added d n (auto_calories n), fst figs)"
    by (simp only: add_entry_unfold [OF assms(1,2) n0] figs r and_then_Inr)
  then show ?thesis
    by (simp add: cal new_entry_def)
qed

lemma add_entry_missing:
  assumes "0 < n_clicks" and "fields_missing day steps"
    and "set required_columns \<subseteq> set (columns (DataFrame current))"
  shows "\<exists>fig. add_entry n_clicks day steps current = Inr (current, FillBothFields, fig)"
proof -
  obtain figs where "make_charts (DataFrame current) = Inr figs"
    using make_charts_columns [OF assms(3)] by blast
  then show ?thesis
    using assms(1,2) by (simp add: add_entry_def)
qed




section \<open>Writing and reading the persisted file\<close>

subsection \<open>Decimal numbers\<close>

lemma of_char_digit_char: "d < 10 \<Longrightarrow> (of_char (digit_char d) :: nat) = 48 + d"
  by (simp add: digit_char_def)

lemma is_digit_digit_char: "d < 10 \<Longrightarrow> is_digit (digit_char d)"
  by (simp add: is_digit_def of_char_digit_char)

lemma digit_val_digit_char: "d < 10 \<Longrightarrow> digit_val (digit_char d) = d"
  by (simp add: digit_val_def of_char_digit_char)

lemma str_nat_digits: "list_all is_digit (str_nat n)"
proof (induction n rule: str_nat.induct)
  case (1 n)
  show ?case
  proof (cases "n < 10")
    case True
    then show ?thesis by (subst str_nat.simps) (simp add: is_digit_digit_char)
  next
    case False
    with 1 show ?thesis by (subst str_nat.simps) (simp add: is_digit_digit_char)
  qed
qed

lemma str_nat_not_Nil: "str_nat n \<noteq> []"
  by (subst str_nat.simps) simp

lemma parse_nat_snoc: "parse_nat (xs @ [c]) = 10 * parse_nat xs + digit_val c"
  by (simp add: parse_nat_def)

lemma parse_nat_str_nat: "parse_nat (str_nat n) = n"
proof (induction n rule: str_nat.induct)
  case (1 n)
  show ?case
  proof (cases "n < 10")
    case True
    then show ?thesis
      by (subst str_nat.simps) (simp add: parse_nat_def digit_val_digit_char)
  next
    case False
    with 1 have "parse_nat (str_nat (n div 10)) = n div 10" by simp
    with False show ?thesis
      by (subst str_nat.simps) (simp add: parse_nat_snoc digit_val_digit_char)
  qed
qed

lemma is_digit_not_special:
  assumes "is_digit c"
  shows "c \<noteq> CHR ''-''" and "c \<noteq> comma" and "c \<noteq> newline" and "c \<noteq> dquote" and "c \<noteq> creturn"
  using assms by (auto simp: is_digit_def comma_def newline_def dquote_def creturn_def)

lemma str_nat_Cons: "\<exists>c cs. str_nat n = c # cs \<and> is_digit c \<and> list_all is_digit cs"
  using str_nat_digits [of n] str_nat_not_Nil [of n] by (cases "str_nat n") auto

lemma is_int_literal_str_int: "is_int_literal (str_int i)"
proof (cases "i < 0")
  case True
  then show ?thesis
    by (simp add: str_int_def is_int_literal_def str_nat_not_Nil str_nat_digits)
next
  case False
  obtain c cs where "str_nat (nat i) = c # cs" "is_digit c" "list_all is_digit cs"
    using str_nat_Cons by blast
  with False show ?thesis
    by (simp add: str_int_def is_int_literal_def is_digit_not_special)
qed

lemma parse_int_str_int: "parse_int (str_int i) = i"
proof (cases "i < 0")
  case True
  then show ?thesis
    by (simp add: str_int_def parse_int_def parse_nat_str_nat)
next
  case False
  obtain c cs where s: "str_nat (nat i) = c # cs" and c: "is_digit c"
    using str_nat_Cons by blast
  have "parse_nat (c # cs) = nat i" using parse_nat_str_nat [of "nat i"] by (simp add: s)
  with False c show ?thesis
    by (simp add: str_int_def parse_int_def s is_digit_not_special)
qed

lemma str_int_not_Nil: "str_int i \<noteq> []"
  by (simp add: str_int_def str_nat_not_Nil)

lemma str_int_plain: "c \<in> set (str_int i) \<Longrightarrow> c \<noteq> comma \<and> c \<noteq> newline"
proof -
  assume "c \<in> set (str_int i)"
  then have "c = CHR ''-'' \<or> is_digit c"
    using str_nat_digits by (auto simp: str_int_def list_all_iff split: if_splits)
  then show ?thesis
    by (auto simp: is_digit_def comma_def newline_def)
qed

subsection \<open>Splitting\<close>

lemma split_on_plain: "c \<notin> set xs \<Longrightarrow> split_on c xs = [xs]"
  by (induction xs) auto

lemma split_on_append:
  "c \<notin> set xs \<Longrightarrow> split_on c (xs @ c # ys) = xs # split_on c ys"
  by (induction xs) auto

lemma split_on_join:
  "fs \<noteq> [] \<Longrightarrow> \<forall>f \<in> set fs. c \<notin> set f \<Longrightarrow> split_on c (join c fs) = fs"
proof (induction c fs rule: join.induct)
  case (1 c)
  then show ?case by simp
next
  case (2 c x)
  then show ?case by (simp add: split_on_plain)
next
  case (3 c x y ys)
  then show ?case by (simp add: split_on_append)
qed

lemma split_lines:
  "\<forall>l \<in> set ls. newline \<notin> set l \<Longrightarrow>
     split_on newline (concat (map (\<lambda>l. l @ [newline]) ls)) = ls @ [[]]"
  by (induction ls) (simp_all add: split_on_append)

subsection \<open>The file written for a dataset of activity records\<close>

lemma weekday_plain:
  assumes "d \<in> set weekdays"
  shows "\<not> needs_quote d" and "d \<noteq> []" and "\<not> is_int_literal d"
    and "comma \<notin> set d" and "newline \<notin> set d"
  using assms
  by (auto simp: weekdays_def needs_quote_def is_int_literal_def is_digit_def
      comma_def newline_def dquote_def creturn_def)

lemma header_plain:
  "map csv_text required_columns = required_columns"
  "\<forall>f \<in> set required_columns. comma \<notin> set f"
  "newline \<notin> set (join comma required_columns)"
  "join comma required_columns \<noteq> []"
  by (simp_all add: required_columns_def csv_text_def needs_quote_def
      comma_def newline_def dquote_def creturn_def)

lemma csv_field_to_row:
  "ar_day a \<in> set weekdays \<Longrightarrow> map csv_field (to_row a) = csv_fields a"
  by (simp add: to_row_def csv_fields_def csv_text_def weekday_plain)

lemma csv_fields_plain:
  assumes "ar_day a \<in> set weekdays"
  shows "\<forall>f \<in> set (csv_fields a). comma \<notin> set f"
    and "newline \<notin> set (join comma (csv_fields a))"
    and "join comma (csv_fields a) \<noteq> []"
    and "length (csv_fields a) = 3"
  using weekday_plain [OF assms] str_int_plain
  by (auto simp: csv_fields_def comma_def newline_def)

lemma to_csv_lines:
  "to_csv f = concat (map (\<lambda>l. l @ [newline])
     (join comma (map csv_text (columns f)) # map (\<lambda>r. join comma (map csv_field r)) (rows f)))"
  by (simp add: to_csv_def csv_line_def comp_def)

lemma lines_of_dataset:
  assumes "list_all (\<lambda>a. ar_day a \<in> set weekdays) acts"
  shows "filter (\<lambda>l. l \<noteq> [])
           (split_on newline (to_csv \<lparr>columns = required_columns, rows = map to_row acts\<rparr>)) =
         join comma required_columns # map (\<lambda>a. join comma (csv_fields a)) acts"
proof -
  let ?ls = "join comma required_columns # map (\<lambda>a. join comma (csv_fields a)) acts"
  have rows: "map (\<lambda>r. join comma (map csv_field r)) (map to_row acts) =
      map (\<lambda>a. join comma (csv_fields a)) acts"
    using assms by (simp add: list_all_iff csv_field_to_row)
  have t: "to_csv \<lparr>columns = required_columns, rows = map to_row acts\<rparr> =
      concat (map (\<lambda>l. l @ [newline]) ?ls)"
    unfolding to_csv_lines by (simp only: frame.simps header_plain(1) rows)
  have nl: "\<forall>l \<in> set ?ls. newline \<notin> set l"
    using assms csv_fields_plain(2) header_plain(3) by (auto simp: list_all_iff)
  have ne: "\<forall>l \<in> set ?ls. l \<noteq> []"
    using assms csv_fields_plain(3) header_plain(4) by (auto simp: list_all_iff)
  have "filter (\<lambda>l. l \<noteq> []) (?ls @ [[]]) = ?ls"
    using ne by (simp add: filter_id_conv)
  then show ?thesis
    unfolding t split_lines [OF nl] .
qed

lemma upt_3: "[0..<length required_columns] = [0, 1, 2]"
  by (simp add: required_columns_def upt_rec)

lemma numeric_cols_dataset:
  assumes "list_all (\<lambda>a. ar_day a \<in> set weekdays) acts" and "acts \<noteq> []"
  shows "\<not> numeric_col (map csv_fields acts) 0"
    and "numeric_col (map csv_fields acts) (Suc 0)"
    and "numeric_col (map csv_fields acts) 2"
proof -
  obtain a where a: "a \<in> set acts" using assms(2) by (cases acts) auto
  then have "ar_day a \<in> set weekdays" using assms(1) by (simp add: list_all_iff)
  from weekday_plain(2,3) [OF this] a
  show "\<not> numeric_col (map csv_fields acts) 0"
    by (auto simp: numeric_col_def list_all_iff field_at_def csv_fields_def)
  show "numeric_col (map csv_fields acts) (Suc 0)" "numeric_col (map csv_fields acts) 2"
    by (simp_all add: numeric_col_def list_all_iff field_at_def csv_fields_def is_int_literal_str_int)
qed

lemma conv_fields:
  assumes w: "list_all (\<lambda>a. ar_day a \<in> set weekdays) acts" and a: "a \<in> set acts"
  shows "map (\<lambda>j. conv (numeric_col (map csv_fields acts) j) (field_at (csv_fields a) j))
           [0..<length required_columns] = to_row a"
proof -
  have ne: "acts \<noteq> []" using a by auto
  have d: "ar_day a \<in> set weekdays" using w a by (simp add: list_all_iff)
  show ?thesis
    using weekday_plain(2) [OF d]
    by (simp add: upt_3 numeric_cols_dataset [OF w ne] conv_def field_at_def csv_fields_def
        to_row_def str_int_not_Nil parse_int_str_int)
qed

lemma read_csv_to_csv:
  assumes w: "list_all (\<lambda>a. ar_day a \<in> set weekdays) acts" and ne: "acts \<noteq> []"
  shows "read_csv (to_csv \<lparr>columns = required_columns, rows = map to_row acts\<rparr>) =
           Inr \<lparr>columns = required_columns, rows = map to_row acts\<rparr>"
proof -
  have cols: "split_on comma (join comma required_columns) = required_columns"
    by (rule split_on_join) (simp_all add: header_plain required_columns_def)
  have raw: "map (split_on comma) (map (\<lambda>a. join comma (csv_fields a)) acts) = map csv_fields acts"
  proof -
    have "split_on comma (join comma (csv_fields a)) = csv_fields a" if "a \<in> set acts" for a
    proof (rule split_on_join)
      show "csv_fields a \<noteq> []" by (simp add: csv_fields_def)
      show "\<forall>f \<in> set (csv_fields a). comma \<notin> set f"
        using that w by (intro csv_fields_plain(1)) (simp add: list_all_iff)
    qed
    then show ?thesis by simp
  qed
  have len: "\<not> list_ex (\<lambda>r. length required_columns < length r) (map csv_fields acts)"
    by (simp add: list_ex_iff csv_fields_def required_columns_def)
  have rows: "map (\<lambda>r. map (\<lambda>j. conv (numeric_col (map csv_fields acts) j) (field_at r j))
                 [0..<length required_columns]) (map csv_fields acts) = map to_row acts"
    using conv_fields [OF w] by simp
  show ?thesis
    unfolding read_csv_def lines_of_dataset [OF w] list.case Let_def cols raw
    by (simp only: len rows if_False)
qed

lemma categorical_dataset:
  assumes w: "list_all (\<lambda>a. ar_day a \<in> set weekdays) acts"
  shows "set_day_categorical \<lparr>columns = required_columns, rows = map to_row acts\<rparr> =
           Inr \<lparr>columns = required_columns, rows = map to_row acts\<rparr>"
proof -
  let ?f = "\<lparr>columns = required_columns, rows = map to_row acts\<rparr>"
  have "map (\<lambda>k. if k = ''Day'' then categorical weekdays (lookup (row_dict ?f (to_row a)) k)
                 else lookup (row_dict ?f (to_row a)) k) required_columns = to_row a"
    if "a \<in> set acts" for a
  proof -
    have d: "ar_day a \<in> set weekdays" using that w by (simp add: list_all_iff)
    have rd: "row_dict ?f (to_row a) = to_dict a" by (simp add: row_dict_to_row)
    show ?thesis
      unfolding rd using d
      by (simp add: required_columns_def to_dict_def lookup_def to_row_def categorical_def)
  qed
  then show ?thesis
    by (simp add: set_day_categorical_def map_col_def required_columns_def)
qed

lemma to_csv_header:
  "prefix (''Day,Steps,Calories'' @ [newline])
     (to_csv \<lparr>columns = required_columns, rows = rs\<rparr>)"
proof -
  have "join comma (map csv_text required_columns) = ''Day,Steps,Calories''"
    by (simp add: header_plain(1)) (simp add: required_columns_def comma_def)
  then show ?thesis
    unfolding to_csv_lines by simp
qed




section \<open>Exact and double-precision arithmetic\<close>

lemma rhe_ge: "rat_of_int J \<le> z \<Longrightarrow> J \<le> round_half_even z"
proof -
  assume "rat_of_int J \<le> z"
  then have "J \<le> \<lfloor>z\<rfloor>" by (simp add: le_floor_iff)
  then show ?thesis by (auto simp: round_half_even_def Let_def)
qed

lemma rhe_less: "z + 1 / 2 < rat_of_int J \<Longrightarrow> round_half_even z < J"
proof -
  assume a: "z + 1 / 2 < rat_of_int J"
  let ?f = "\<lfloor>z\<rfloor>"
  have f: "rat_of_int ?f \<le> z" by simp
  show ?thesis
  proof (cases "z - rat_of_int ?f < 1 / 2")
    case True
    have "rat_of_int ?f < rat_of_int J" using f a by linarith
    then have "?f < J" by simp
    with True show ?thesis by (simp add: round_half_even_def Let_def)
  next
    case False
    then have "rat_of_int ?f + 1 < rat_of_int J" using a by linarith
    then have "rat_of_int (?f + 1) < rat_of_int J" by simp
    then have "?f + 1 < J" by (simp only: of_int_less_iff)
    then show ?thesis by (auto simp: round_half_even_def Let_def)
  qed
qed

lemma rhe_greater: "rat_of_int J < z - 1 / 2 \<Longrightarrow> J < round_half_even z"
proof -
  assume a: "rat_of_int J < z - 1 / 2"
  let ?f = "\<lfloor>z\<rfloor>"
  have f: "z < rat_of_int ?f + 1" by linarith
  show ?thesis
  proof (cases "z - rat_of_int ?f \<le> 1 / 2")
    case True
    then have "rat_of_int J < rat_of_int ?f" using a by linarith
    then have "J < ?f" by simp
    then show ?thesis by (auto simp: round_half_even_def Let_def)
  next
    case False
    have "rat_of_int J < rat_of_int ?f + 1" using f a by linarith
    then have "rat_of_int J < rat_of_int (?f + 1)" by simp
    then have "J < ?f + 1" by (simp only: of_int_less_iff)
    with False show ?thesis by (auto simp: round_half_even_def Let_def)
  qed
qed

lemma rhe_near:
  assumes "rat_of_int J - 1 / 2 < z" and "z < rat_of_int J + 1 / 2"
  shows "round_half_even z = J"
proof -
  have "rat_of_int (J - 1) < z - 1 / 2" using assms(1) by simp
  from rhe_greater [OF this] have a: "J - 1 < round_half_even z" .
  have "z + 1 / 2 < rat_of_int (J + 1)" using assms(2) by simp
  from rhe_less [OF this] have b: "round_half_even z < J + 1" .
  from a b show ?thesis by linarith
qed

lemma rhe_of_int: "round_half_even (rat_of_int J) = J"
  by (simp add: round_half_even_def Let_def)

text \<open>
  A number between \<open>1/32\<close> and \<open>2^53\<close> is rounded on a grid of step \<open>1 / 2^t\<close> on which
  it has 53 binary digits.
\<close>

lemma double_round_scaled:
  assumes lo: "1 / 32 \<le> x" and hi: "x < 2 ^ 53"
  obtains t :: nat where "double_round x = rat_of_int (round_half_even (x * 2 ^ t)) / 2 ^ t"
    and "2 ^ 52 \<le> x * 2 ^ t" and "x * 2 ^ t < 2 ^ 53"
proof -
  define y where "y = x / tiny"
  define M where "M = \<lfloor>y\<rfloor>"
  define s where "s = nat (bitlen M - 53)"
  have x0: "0 < x" using lo by linarith
  have ylo: "2 ^ 1069 \<le> y"
  proof -
    have "(2::rat) ^ 1069 = 1 / 32 * 2 ^ 1074" by simp
    also have "\<dots> \<le> x * 2 ^ 1074" using lo by (intro mult_right_mono) simp_all
    finally show ?thesis by (simp add: y_def tiny_def)
  qed
  have yhi: "y < 2 ^ 1127"
  proof -
    have "x * 2 ^ 1074 < 2 ^ 53 * 2 ^ 1074" using hi by (intro mult_strict_right_mono) simp_all
    then show ?thesis by (simp add: y_def tiny_def)
  qed
  have Mlo: "2 ^ 1069 \<le> M"
  proof -
    have "rat_of_int (2 ^ 1069) \<le> y" using ylo by simp
    then show ?thesis unfolding M_def by (simp only: le_floor_iff)
  qed
  have Mhi: "M < 2 ^ 1127"
  proof -
    have "y < rat_of_int (2 ^ 1127)" using yhi by simp
    then show ?thesis unfolding M_def by (simp only: floor_less_iff)
  qed
  have M0: "0 < M" using Mlo by (smt (verit) zero_less_power)
  note bb = bitlen_bounds [OF M0]
  have b_lo: "1070 \<le> bitlen M"
  proof (rule ccontr)
    assume "\<not> 1070 \<le> bitlen M"
    then have "nat (bitlen M) \<le> 1069" by simp
    then have "(2::int) ^ nat (bitlen M) \<le> 2 ^ 1069" by (intro power_increasing) simp_all
    with bb Mlo show False by linarith
  qed
  have b_hi: "bitlen M \<le> 1127"
  proof (rule ccontr)
    assume "\<not> bitlen M \<le> 1127"
    then have "1127 \<le> nat (bitlen M - 1)" by simp
    then have "(2::int) ^ 1127 \<le> 2 ^ nat (bitlen M - 1)" by (intro power_increasing) simp_all
    with bb Mhi show False by linarith
  qed
  have s_eq: "int s = bitlen M - 53" using b_lo by (simp add: s_def)
  have s_le: "s \<le> 1074" using b_hi s_eq by linarith
  define t where "t = 1074 - s"
  have ts: "t + s = 1074" using s_le by (simp add: t_def)
  have pw: "tiny = 1 / (2 ^ t * 2 ^ s)" unfolding tiny_def by (simp only: ts flip: power_add)
  define z where "z = y / 2 ^ s"
  have z: "z = x * 2 ^ t" by (simp add: z_def y_def pw)
  have "double_round x = rat_of_int (round_half_even z) * 2 ^ s * tiny"
    using x0 by (simp add: double_round_def Let_def z_def y_def M_def s_def)
  then have r: "double_round x = rat_of_int (round_half_even (x * 2 ^ t)) / 2 ^ t"
    by (simp add: pw z)
  have u: "2 ^ 52 \<le> x * 2 ^ t"
  proof -
    have "nat (bitlen M - 1) = s + 52" using s_eq b_lo by linarith
    with bb have "2 ^ (s + 52) \<le> M" by simp
    then have "rat_of_int (2 ^ (s + 52)) \<le> rat_of_int M" by (simp only: of_int_le_iff)
    also have "\<dots> \<le> y" by (simp add: M_def)
    finally have "2 ^ 52 * 2 ^ s \<le> y" by (simp add: power_add mult.commute)
    then have "2 ^ 52 \<le> z" by (simp add: z_def pos_le_divide_eq)
    then show ?thesis by (simp only: z)
  qed
  have v: "x * 2 ^ t < 2 ^ 53"
  proof -
    have "nat (bitlen M) = s + 53" using s_eq b_lo by linarith
    with bb have "M < 2 ^ (s + 53)" by simp
    then have "y < rat_of_int (2 ^ (s + 53))" unfolding M_def by (simp only: floor_less_iff)
    then have "y < 2 ^ 53 * 2 ^ s" by (simp add: power_add mult.commute)
    then have "z < 2 ^ 53" by (simp add: z_def pos_divide_less_eq)
    then show ?thesis by (simp only: z)
  qed
  from r u v show ?thesis by (rule that)
qed

lemma double_round_between:
  fixes K :: int
  assumes lo: "1 / 32 \<le> x" and hi: "x < 2 ^ 53"
    and k: "rat_of_int K \<le> x" and k1: "x * (1 + 1 / 2 ^ 53) < rat_of_int K + 1"
  shows "rat_of_int K \<le> double_round x \<and> double_round x < rat_of_int K + 1"
proof -
  obtain t :: nat where r: "double_round x = rat_of_int (round_half_even (x * 2 ^ t)) / 2 ^ t"
    and u: "2 ^ 52 \<le> x * 2 ^ t"
    using double_round_scaled [OF lo hi] by blast
  let ?z = "x * 2 ^ t"
  have low: "rat_of_int (K * 2 ^ t) \<le> ?z"
    using k by simp
  have upp: "?z + 1 / 2 < rat_of_int ((K + 1) * 2 ^ t)"
  proof -
    have "?z + 1 / 2 \<le> ?z + ?z / 2 ^ 53" using u by simp
    also have "\<dots> = x * (1 + 1 / 2 ^ 53) * 2 ^ t" by (simp add: algebra_simps)
    also have "\<dots> < (rat_of_int K + 1) * 2 ^ t" using k1 by (intro mult_strict_right_mono) simp_all
    finally show ?thesis by simp
  qed
  from rhe_ge [OF low] have "rat_of_int (K * 2 ^ t) \<le> rat_of_int (round_half_even ?z)"
    by (simp only: of_int_le_iff)
  then have a: "rat_of_int K \<le> double_round x"
    by (simp add: r pos_le_divide_eq)
  from rhe_less [OF upp] have "rat_of_int (round_half_even ?z) < rat_of_int ((K + 1) * 2 ^ t)"
    by (simp only: of_int_less_iff)
  then have b: "double_round x < rat_of_int K + 1"
    by (simp add: r pos_divide_less_eq)
  from a b show ?thesis ..
qed

text \<open>An integer below \<open>2^53\<close> is a double.\<close>

lemma double_round_of_int:
  assumes "0 \<le> n" and "n < 2 ^ 53"
  shows "double_round (rat_of_int n) = rat_of_int n"
proof (cases "n = 0")
  case True
  then show ?thesis by (simp add: double_round_def Let_def round_half_even_def)
next
  case False
  with assms have lo: "1 / 32 \<le> rat_of_int n" by simp
  have "rat_of_int n < rat_of_int (2 ^ 53)" using assms(2) by (simp only: of_int_less_iff)
  then have hi: "rat_of_int n < 2 ^ 53" by simp
  obtain t :: nat
    where r: "double_round (rat_of_int n) = rat_of_int (round_half_even (rat_of_int n * 2 ^ t)) / 2 ^ t"
    using double_round_scaled [OF lo hi] by blast
  have "rat_of_int n * 2 ^ t = rat_of_int (n * 2 ^ t)" by simp
  then have "round_half_even (rat_of_int n * 2 ^ t) = n * 2 ^ t"
    by (simp only: rhe_of_int)
  then show ?thesis by (simp add: r)
qed

lemma double_005_exact: "double_005 = (1 + 1 / 2 ^ 54) / 20"
  by (simp add: double_005_def)

text \<open>
  Below \<open>2^52\<close> steps the calories computed in double precision are the exact ones.
\<close>

lemma auto_calories_double:
  assumes "0 < n" and "n < 2 ^ 52"
  shows "auto_calories_double n = auto_calories n"
proof -
  let ?x = "rat_of_int n * double_005"
  let ?K = "n div 20"
  have n53: "n < 2 ^ 53" using assms(2) by simp
  have conv: "double_round (rat_of_int n) = rat_of_int n"
    using assms(1) n53 by (intro double_round_of_int) simp_all
  have n1: "1 \<le> rat_of_int n" using assms(1) by simp
  have nhi: "rat_of_int n < 2 ^ 52"
  proof -
    have "rat_of_int n < rat_of_int (2 ^ 52)" using assms(2) by (simp only: of_int_less_iff)
    then show ?thesis by simp
  qed
  have lo: "1 / 32 \<le> ?x"
  proof -
    have "1 / 32 \<le> 1 * double_005" by (simp add: double_005_def)
    also have "\<dots> \<le> ?x" using n1 by (intro mult_right_mono) (simp_all add: double_005_def)
    finally show ?thesis .
  qed
  have hi: "?x < 2 ^ 53"
  proof -
    have "?x \<le> rat_of_int n * 1" by (intro mult_left_mono) (use n1 in \<open>simp_all add: double_005_def\<close>)
    with nhi show ?thesis by simp
  qed
  have d: "20 * ?K \<le> n" "n \<le> 20 * ?K + 19" by presburger+
  have k: "rat_of_int ?K \<le> ?x"
  proof -
    have "rat_of_int (20 * ?K) \<le> rat_of_int n" using d(1) by (simp only: of_int_le_iff)
    then have "rat_of_int ?K \<le> rat_of_int n / 20" by simp
    also have "\<dots> \<le> ?x" using n1 by (simp add: double_005_exact)
    finally show ?thesis .
  qed
  have k1: "?x * (1 + 1 / 2 ^ 53) < rat_of_int ?K + 1"
  proof -
    define q :: rat where "q = (1 + 1 / 2 ^ 54) * (1 + 1 / 2 ^ 53) - 1"
    have q: "0 < q" "q * 2 ^ 52 < 1" by (simp_all add: q_def)
    have e: "?x * (1 + 1 / 2 ^ 53) = (rat_of_int n + rat_of_int n * q) / 20"
      by (simp add: double_005_exact q_def algebra_simps)
    have "rat_of_int n * q < 2 ^ 52 * q" using nhi q(1) by (intro mult_strict_right_mono)
    also have "\<dots> < 1" using q(2) by (simp add: mult.commute)
    finally have "rat_of_int n * q < 1" .
    moreover have "rat_of_int n \<le> rat_of_int (20 * ?K + 19)" using d(2) by (simp only: of_int_le_iff)
    ultimately have "rat_of_int n + rat_of_int n * q < 20 * rat_of_int ?K + 20" by simp
    then show ?thesis unfolding e by simp
  qed
  from double_round_between [OF lo hi k k1]
  have b: "rat_of_int ?K \<le> double_round ?x" "double_round ?x < rat_of_int ?K + 1" by blast+
  have "0 \<le> ?K" using assms(1) by simp
  then have "0 \<le> double_round ?x" using b(1) by (smt (verit) of_int_0_le_iff order_trans)
  moreover have "\<lfloor>double_round ?x\<rfloor> = ?K" using b by (simp add: floor_unique)
  ultimately have "auto_calories_double n = ?K"
    by (simp add: auto_calories_double_def conv trunc_def)
  moreover have "auto_calories n = ?K"
    using assms(1) by (simp add: trunc_div20)
  ultimately show ?thesis by simp
qed

end
